theory Spec2Isabelle
  imports Complex_Main
begin

section \<open>Data model of the orchestrator (class ARApp, main.js)\<close>

text \<open>
  JavaScript numbers are modelled as real numbers (rounding of IEEE doubles is not
  modelled), timestamps of \<^verbatim>\<open>Date.now()\<close> as integers (milliseconds), \<^verbatim>\<open>null\<close> as
  \<open>None\<close>. Objects of the DOM and of three.js are identified by a natural number; the
  calls the orchestrator makes on them are recorded, in order, in the field \<open>effects\<close>.
  An uncaught \<^verbatim>\<open>TypeError\<close> (a method called on \<^verbatim>\<open>null\<close>) ends the handler: the
  functions that can raise one return \<open>error + ar_app\<close>. Where the source divides by
  zero (the result is \<^verbatim>\<open>Infinity\<close> or \<^verbatim>\<open>NaN\<close>, which no real number stands for), the
  model returns \<open>NonFinite\<close> instead of a state.
\<close>

datatype error = TypeError string | NonFinite string

datatype tracking_mode = Sensor | Slam | Hybrid

type_synonym matrix4 = "real list"

record orientation =
  alpha :: "real option"
  beta :: "real option"
  gamma :: "real option"

record touch =
  clientX :: real
  clientY :: real

record gesture_state =
  isDragging :: bool
  isPinching :: bool
  dragStartX :: real
  dragStartY :: real
  objStartX :: real
  objStartY :: real
  pinchStartDist :: real
  pinchStartScale :: real

text \<open>The uniforms of the chroma-key \<^verbatim>\<open>ShaderMaterial\<close> built in \<^verbatim>\<open>placeCube\<close>.\<close>

record uniforms =
  keyColor :: "real \<times> real \<times> real"
  similarity :: real
  smoothness :: real
  cropTop :: real
  cropBottom :: real

text \<open>The overlay mesh (\<^verbatim>\<open>this.hudCube\<close>): a plane with the chroma-key material.\<close>

record mesh =
  mesh_id :: nat
  geometry_id :: nat
  material_id :: nat
  plane_width :: real
  plane_height :: real
  mesh_uniforms :: uniforms
  position_x :: real
  position_y :: real
  position_z :: real
  scale_x :: real
  scale_y :: real
  scale_z :: real

text \<open>The overlay's \<^verbatim>\<open>video\<close> element (\<^verbatim>\<open>this.hudVideo\<close>).\<close>

record video_el =
  video_id :: nat
  v_loop :: bool
  v_muted :: bool
  v_playsInline :: bool
  v_src :: string
  v_volume :: real

text \<open>The camera feed element (\<^verbatim>\<open>this.video\<close>), read for its frame size only.\<close>

record bg_video =
  videoWidth :: nat
  videoHeight :: nat

text \<open>
  The symbolic camera pose: which source wrote it last. The rotation arithmetic of
  three.js is outside the orchestrator.
\<close>

datatype pose =
    PoseInitial
  | PoseFromViewMatrix matrix4 bool "pose option"
  | PoseFromOrientation orientation orientation real

record camera =
  fov :: real
  aspect :: real
  children :: "nat list"
  cam_pose :: pose

text \<open>
  Modelled from the spec: the class \<^verbatim>\<open>CameraPoseManager\<close> (CameraPoseManager.js) is not
  among the sources; main.js constructs it on the camera, calls \<^verbatim>\<open>setSmoothing\<close>,
  \<^verbatim>\<open>applyViewMatrix\<close>, \<^verbatim>\<open>applyDeviceOrientation\<close>, \<^verbatim>\<open>getDebugInfo\<close> and \<^verbatim>\<open>reset\<close> on
  it and reads its field \<^verbatim>\<open>isTracking\<close>. Its state, after section 4.1 of the
  specification: whether visual odometry is reported as tracking, the reference
  orientation, the smoothing accumulator (the last pose derived from a view matrix) and
  the smoothing configuration.
\<close>

record pose_manager =
  pm_isTracking :: bool
  pm_reference :: "orientation option"
  pm_accumulator :: "pose option"
  pm_smoothing :: "bool \<times> real"

text \<open>
  The visual-odometry engine (VisualOdometry.js, loaded dynamically) is an external
  collaborator; the model keeps only whether its \<^verbatim>\<open>init\<close> promise has resolved and the
  frame size it was configured with.
\<close>

record vo_engine =
  vo_initialized :: bool
  vo_camera_size :: "(nat \<times> nat) option"

record vo_result =
  tracking :: bool
  viewMatrix :: matrix4
  featureCount :: nat

datatype effect =
    CameraRemove nat
  | GeometryDispose nat
  | MaterialDispose nat
  | TextureDispose nat
  | VideoPause nat
  | VideoSetSrc nat string
  | CreateVideo nat
  | VideoLoad nat
  | CreateTexture nat nat
  | CreateMaterial nat nat
  | CreateGeometry nat
  | CreateMesh nat nat nat
  | CameraAdd nat
  | ApplyViewMatrix matrix4 bool
  | ApplyDeviceOrientation "real option" "real option" "real option" real
  | PoseManagerReset
  | ImportVisualOdometry
  | VOInit
  | VOAutoConfigureCamera nat nat
  | VOProcessFrame nat nat
  | VOReset
  | VODestroy
  | UpdateStatus
  | Render
  | StopTracks
  | RendererDispose

record ar_app =
  video :: "bg_video option"
  camera :: "camera option"
  visualOdometry :: "vo_engine option"
  cameraPoseManager :: "pose_manager option"
  hudCube :: "mesh option"
  hudCubeBaseScale :: real
  hudVideo :: "video_el option"
  hudVideoTexture :: "nat option"
  currentVideoSrc :: string
  gesture :: gesture_state
  deviceOrientation :: orientation
  initialOrientation :: "orientation option"
  trackingMode :: tracking_mode
  isRunning :: bool
  isReady :: bool
  acceleration :: "(real \<times> real \<times> real) option"
  importsPending :: nat
  initsPending :: nat
  lastTap :: int
  mouseDown :: bool
  innerWidth :: real
  innerHeight :: real
  windowOrientation :: "real option"
  nextId :: nat
  effects :: "effect list"

text \<open>The state the constructor builds (lines 21-79), before \<^verbatim>\<open>init\<close> has run.\<close>

definition constructed :: ar_app where
  "constructed =
     \<lparr> video = None, camera = None, visualOdometry = None, cameraPoseManager = None,
       hudCube = None, hudCubeBaseScale = 1, hudVideo = None, hudVideoTexture = None,
       currentVideoSrc = ''greetgang.mp4'',
       gesture = \<lparr> isDragging = False, isPinching = False, dragStartX = 0, dragStartY = 0,
                   objStartX = 0, objStartY = 0, pinchStartDist = 0, pinchStartScale = 1 \<rparr>,
       deviceOrientation = \<lparr> alpha = Some 0, beta = Some 0, gamma = Some 0 \<rparr>,
       initialOrientation = None,
       trackingMode = Sensor,
       isRunning = False, isReady = False,
       acceleration = None, importsPending = 0, initsPending = 0,
       lastTap = 0, mouseDown = False,
       innerWidth = 400, innerHeight = 800, windowOrientation = None,
       nextId = 0, effects = [] \<rparr>"

text \<open>
  The state once \<^verbatim>\<open>init\<close> has completed (lines 85-124): the camera feed is attached,
  \<^verbatim>\<open>initVirtualLayer\<close> has created the perspective camera (vertical field of view 70
  degrees) and its pose manager with smoothing factor 0.2, and both flags are set. The
  frame size and the window height are those of one concrete device.
\<close>

definition initialised :: ar_app where
  "initialised =
     constructed
       \<lparr> video := Some \<lparr> videoWidth = 1280, videoHeight = 720 \<rparr>,
         camera := Some \<lparr> fov = 70, aspect = 1/2, children = [], cam_pose = PoseInitial \<rparr>,
         cameraPoseManager :=
           Some \<lparr> pm_isTracking = False, pm_reference = None, pm_accumulator = None,
                  pm_smoothing = (True, 1/5) \<rparr>,
         isRunning := True, isReady := True \<rparr>"

section \<open>The pose manager\<close>

text \<open>
  Modelled from the spec: \<^verbatim>\<open>CameraPoseManager.applyViewMatrix\<close> is not among the sources.
  Section 4.1: it decomposes the view matrix into position and orientation and, when
  smoothing is requested, blends from the previous value towards the new one instead of
  snapping. Sections 4.1, 4.3 and 9: in hybrid mode the sensor is demoted while the
  manager reports that visual odometry is tracking, which is what applying a view matrix
  of a tracked frame establishes.
\<close>

definition pm_applyViewMatrix ::
  "matrix4 \<Rightarrow> bool \<Rightarrow> pose_manager \<Rightarrow> camera \<Rightarrow> pose_manager \<times> camera" where
  "pm_applyViewMatrix m smoothed pm c =
     (let p = PoseFromViewMatrix m smoothed (if smoothed then pm_accumulator pm else None)
      in (pm \<lparr> pm_isTracking := True, pm_accumulator := Some p \<rparr>, c \<lparr> cam_pose := p \<rparr>))"

text \<open>
  Modelled from the spec: \<^verbatim>\<open>CameraPoseManager.applyDeviceOrientation\<close> is not among the
  sources. Section 4.1: the first call after (re)initialisation establishes the reference
  orientation; the camera orientation is overwritten with the rotation of the sample
  relative to the reference, compensated for the screen rotation.
\<close>

definition pm_applyDeviceOrientation ::
  "orientation \<Rightarrow> real \<Rightarrow> pose_manager \<Rightarrow> camera \<Rightarrow> pose_manager \<times> camera" where
  "pm_applyDeviceOrientation sample screenOrientation pm c =
     (let ref = (case pm_reference pm of None \<Rightarrow> sample | Some r \<Rightarrow> r)
      in (pm \<lparr> pm_reference := Some ref \<rparr>,
          c \<lparr> cam_pose := PoseFromOrientation ref sample screenOrientation \<rparr>))"

text \<open>
  Modelled from the spec: \<^verbatim>\<open>CameraPoseManager.reset\<close> is not among the sources.
  Section 4.1: it clears the reference orientation and any smoothing accumulator.
\<close>

definition pm_reset :: "pose_manager \<Rightarrow> pose_manager" where
  "pm_reset pm = pm \<lparr> pm_reference := None, pm_accumulator := None \<rparr>"

section \<open>Sensors\<close>

text \<open>\<^verbatim>\<open>onDeviceOrientation\<close> (lines 318-332).\<close>

definition onDeviceOrientation :: "orientation \<Rightarrow> ar_app \<Rightarrow> ar_app" where
  "onDeviceOrientation event s =
     (if alpha event = None then s
      else
        let s1 = s \<lparr> deviceOrientation :=
                      \<lparr> alpha = alpha event, beta = beta event, gamma = gamma event \<rparr> \<rparr>
        in if initialOrientation s1 = None
           then s1 \<lparr> initialOrientation := Some (deviceOrientation s1) \<rparr>
           else s1)"

text \<open>A sequence of orientation events, delivered in order.\<close>

fun orientation_events :: "orientation list \<Rightarrow> ar_app \<Rightarrow> ar_app" where
  "orientation_events [] s = s"
| "orientation_events (e # es) s = orientation_events es (onDeviceOrientation e s)"

text \<open>
  \<^verbatim>\<open>resetPose\<close> (lines 852-861). The engine's \<^verbatim>\<open>reset\<close> is recorded as a call.
\<close>

definition resetPose :: "ar_app \<Rightarrow> ar_app" where
  "resetPose s =
     (let s1 = (case cameraPoseManager s of
                  None \<Rightarrow> s
                | Some pm \<Rightarrow> s \<lparr> cameraPoseManager := Some (pm_reset pm),
                                 effects := effects s @ [PoseManagerReset] \<rparr>);
          s2 = (case visualOdometry s1 of
                  None \<Rightarrow> s1
                | Some vo \<Rightarrow> s1 \<lparr> effects := effects s1 @ [VOReset] \<rparr>)
      in s2 \<lparr> initialOrientation := None \<rparr>)"

section \<open>Overlay placement\<close>

text \<open>\<^verbatim>\<open>String.prototype.includes\<close>: the needle occurs as a contiguous substring.\<close>

fun str_includes :: "string \<Rightarrow> string \<Rightarrow> bool" where
  "str_includes [] needle = (needle = [])"
| "str_includes (c # cs) needle =
     (take (length needle) (c # cs) = needle \<or> str_includes cs needle)"

text \<open>
  \<^verbatim>\<open>cleanupHud\<close> (lines 640-656). \<^verbatim>\<open>this.camera.remove\<close> on a \<^verbatim>\<open>null\<close> camera is a
  TypeError; \<^verbatim>\<open>Object3D.remove\<close> takes the object out of the children.
\<close>

definition cleanupHud :: "ar_app \<Rightarrow> error + ar_app" where
  "cleanupHud s =
     (case (case hudCube s of
              None \<Rightarrow> Inr s
            | Some m \<Rightarrow>
                (case camera s of
                   None \<Rightarrow> Inl (TypeError ''this.camera is null'')
                 | Some c \<Rightarrow>
                     Inr (s \<lparr> camera := Some (c \<lparr> children := removeAll (mesh_id m) (children c) \<rparr>),
                             hudCube := None,
                             effects := effects s @
                               [CameraRemove (mesh_id m), GeometryDispose (geometry_id m),
                                MaterialDispose (material_id m)] \<rparr>))) of
        Inl e \<Rightarrow> Inl e
      | Inr s1 \<Rightarrow>
          let s2 = (case hudVideoTexture s1 of
                      None \<Rightarrow> s1
                    | Some t \<Rightarrow> s1 \<lparr> hudVideoTexture := None,
                                    effects := effects s1 @ [TextureDispose t] \<rparr>);
              s3 = (case hudVideo s2 of
                      None \<Rightarrow> s2
                    | Some v \<Rightarrow> s2 \<lparr> hudVideo := None,
                                    effects := effects s2 @
                                      [VideoPause (video_id v), VideoSetSrc (video_id v) ''''] \<rparr>)
          in Inr s3)"

text \<open>
  \<^verbatim>\<open>placeCube\<close> (lines 499-635). A source that is \<^verbatim>\<open>null\<close> or empty keeps the
  current one. The new video element, texture, material, geometry and mesh take the next
  five identifiers. Of the two listeners it registers, \<^verbatim>\<open>loadedmetadata\<close> is the
  function \<open>onLoadedMetadata\<close> below; \<^verbatim>\<open>canplay\<close> only starts playback.
\<close>

definition placeCube :: "string option \<Rightarrow> ar_app \<Rightarrow> error + ar_app" where
  "placeCube videoSrc s =
     (if \<not> isReady s then Inr s
      else
        let s1 = (case videoSrc of
                    None \<Rightarrow> s
                  | Some src \<Rightarrow> if src = [] then s else s \<lparr> currentVideoSrc := src \<rparr>)
        in case cleanupHud s1 of
             Inl e \<Rightarrow> Inl e
           | Inr s2 \<Rightarrow>
               let n = nextId s2;
                   src = currentVideoSrc s2;
                   muted = (\<not> str_includes src ''singgang2'');
                   v = \<lparr> video_id = n, v_loop = True, v_muted = muted, v_playsInline = True,
                         v_src = src, v_volume = (if \<not> muted then 4/5 else 1) \<rparr>;
                   crop = (if str_includes src ''singgang2'' then 2/25 else 0);
                   u = \<lparr> keyColor = (0, 1, 0), similarity = 2/5, smoothness = 1/10,
                         cropTop = crop, cropBottom = crop \<rparr>;
                   m = \<lparr> mesh_id = n + 4, geometry_id = n + 3, material_id = n + 2,
                         plane_width = 1/2, plane_height = 1/2, mesh_uniforms = u,
                         position_x = 0, position_y = 0, position_z = - (3/2),
                         scale_x = 1, scale_y = 1, scale_z = 1 \<rparr>;
                   created = [CreateVideo n, VideoSetSrc n src, VideoLoad n,
                              CreateTexture (n + 1) n, CreateMaterial (n + 2) (n + 1),
                              CreateGeometry (n + 3), CreateMesh (n + 4) (n + 3) (n + 2)]
               in (case camera s2 of
                     None \<Rightarrow> Inl (TypeError ''this.camera is null'')
                   | Some c \<Rightarrow>
                       Inr (s2 \<lparr> hudVideo := Some v,
                                 hudVideoTexture := Some (n + 1),
                                 hudCube := Some m,
                                 hudCubeBaseScale := 1,
                                 camera := Some (c \<lparr> children := children c @ [n + 4] \<rparr>),
                                 nextId := n + 5,
                                 effects := effects s2 @ created @ [CameraAdd (n + 4)] \<rparr>)))"

section \<open>Gestures\<close>

text \<open>\<^verbatim>\<open>getTouchDistance\<close> (lines 476-480), on the first two touch points.\<close>

definition getTouchDistance :: "touch \<Rightarrow> touch \<Rightarrow> real" where
  "getTouchDistance t0 t1 =
     (let dx = clientX t0 - clientX t1; dy = clientY t0 - clientY t1
      in sqrt (dx * dx + dy * dy))"

text \<open>\<^verbatim>\<open>THREE.MathUtils.degToRad\<close>: degrees times \<open>\<pi> / 180\<close>.\<close>

definition degToRad :: "real \<Rightarrow> real" where
  "degToRad degrees = degrees * (pi / 180)"

text \<open>
  \<^verbatim>\<open>screenPixelToLocal\<close> (lines 486-492). A window of height 0 makes the quotient
  non-finite, and where the cosine vanishes the tangent has no real value: the model
  stops in both cases. The camera's field of view is 70 degrees throughout.
\<close>

definition screenPixelToLocal :: "ar_app \<Rightarrow> error + real" where
  "screenPixelToLocal s =
     (case camera s of
        None \<Rightarrow> Inl (TypeError ''this.camera is null'')
      | Some c \<Rightarrow>
          let distance = 3/2;
              fovRad = degToRad (fov c);
              screenHeight = innerHeight s
          in if screenHeight = 0 \<or> cos (fovRad / 2) = 0
             then Inl (NonFinite ''screenPixelToLocal'')
             else Inr ((2 * distance * tan (fovRad / 2)) / screenHeight))"

text \<open>The \<^verbatim>\<open>touchstart\<close> listener (lines 350-368).\<close>

definition touchstart :: "touch list \<Rightarrow> ar_app \<Rightarrow> ar_app" where
  "touchstart touches s =
     (case (touches, hudCube s) of
        ([t], Some m) \<Rightarrow>
          s \<lparr> gesture := (gesture s)
                \<lparr> isDragging := True, isPinching := False,
                  dragStartX := clientX t, dragStartY := clientY t,
                  objStartX := position_x m, objStartY := position_y m \<rparr> \<rparr>
      | ([t0, t1], Some m) \<Rightarrow>
          s \<lparr> gesture := (gesture s)
                \<lparr> isDragging := False, isPinching := True,
                  pinchStartDist := getTouchDistance t0 t1,
                  pinchStartScale := hudCubeBaseScale s \<rparr> \<rparr>
      | _ \<Rightarrow> s)"

text \<open>
  The \<^verbatim>\<open>touchmove\<close> listener (lines 370-392). The pinch branch divides by the
  recorded start distance.
\<close>

definition touchmove :: "touch list \<Rightarrow> ar_app \<Rightarrow> error + ar_app" where
  "touchmove touches s =
     (case hudCube s of
        None \<Rightarrow> Inr s
      | Some m \<Rightarrow>
          (case touches of
             [t] \<Rightarrow>
               if isDragging (gesture s) then
                 (let dx = clientX t - dragStartX (gesture s);
                      dy = clientY t - dragStartY (gesture s)
                  in case screenPixelToLocal s of
                       Inl e \<Rightarrow> Inl e
                     | Inr k \<Rightarrow>
                         Inr (s \<lparr> hudCube := Some (m
                                \<lparr> position_x := objStartX (gesture s) + dx * k,
                                  position_y := objStartY (gesture s) - dy * k \<rparr>) \<rparr>))
               else Inr s
           | [t0, t1] \<Rightarrow>
               if isPinching (gesture s) then
                 (if pinchStartDist (gesture s) = 0 then Inl (NonFinite ''ratio'')
                  else
                    let dist = getTouchDistance t0 t1;
                        ratio = dist / pinchStartDist (gesture s);
                        newScale = max (3/10) (min 20 (pinchStartScale (gesture s) * ratio))
                    in Inr (s \<lparr> hudCubeBaseScale := newScale,
                               hudCube := Some (m \<lparr> scale_x := newScale, scale_y := newScale,
                                                   scale_z := newScale \<rparr>) \<rparr>))
               else Inr s
           | _ \<Rightarrow> Inr s))"

text \<open>
  The \<^verbatim>\<open>touchend\<close> listener (lines 394-421); \<open>now\<close> is the value of \<^verbatim>\<open>Date.now()\<close>,
  \<open>lastTap\<close> the variable of the enclosing \<^verbatim>\<open>setupEvents\<close>.
\<close>

definition touchend :: "touch list \<Rightarrow> touch list \<Rightarrow> int \<Rightarrow> ar_app \<Rightarrow> error + ar_app" where
  "touchend touches changedTouches now s =
     (case touches of
        [] \<Rightarrow>
          (case (if isDragging (gesture s) \<and> \<not> isPinching (gesture s) then
                   (let dx = \<bar>(case changedTouches of [] \<Rightarrow> 0 | c # _ \<Rightarrow> clientX c)
                              - dragStartX (gesture s)\<bar>;
                        dy = \<bar>(case changedTouches of [] \<Rightarrow> 0 | c # _ \<Rightarrow> clientY c)
                              - dragStartY (gesture s)\<bar>
                    in if dx < 10 \<and> dy < 10 then
                         (case (if now - lastTap s < 300 then placeCube None s else Inr s) of
                            Inl e \<Rightarrow> Inl e
                          | Inr s1 \<Rightarrow> Inr (s1 \<lparr> lastTap := now \<rparr>))
                       else Inr s)
                 else Inr s) of
             Inl e \<Rightarrow> Inl e
           | Inr s2 \<Rightarrow>
               Inr (s2 \<lparr> gesture := (gesture s2) \<lparr> isDragging := False, isPinching := False \<rparr> \<rparr>))
      | [t] \<Rightarrow>
          Inr (s \<lparr> gesture := (gesture s)
                     \<lparr> isPinching := False, isDragging := True,
                       dragStartX := clientX t, dragStartY := clientY t,
                       objStartX := (case hudCube s of None \<Rightarrow> 0 | Some m \<Rightarrow> position_x m),
                       objStartY := (case hudCube s of None \<Rightarrow> 0 | Some m \<Rightarrow> position_y m) \<rparr> \<rparr>)
      | _ \<Rightarrow> Inr s)"

text \<open>The mouse listeners (lines 424-449); \<open>mouseDown\<close> is a variable of \<^verbatim>\<open>setupEvents\<close>.\<close>

definition mousedown :: "real \<Rightarrow> real \<Rightarrow> ar_app \<Rightarrow> error + ar_app" where
  "mousedown x y s =
     (case hudCube s of
        None \<Rightarrow> placeCube None s
      | Some m \<Rightarrow>
          Inr (s \<lparr> mouseDown := True,
                   gesture := (gesture s)
                     \<lparr> dragStartX := x, dragStartY := y,
                       objStartX := position_x m, objStartY := position_y m \<rparr> \<rparr>))"

definition mousemove :: "real \<Rightarrow> real \<Rightarrow> ar_app \<Rightarrow> error + ar_app" where
  "mousemove x y s =
     (case hudCube s of
        None \<Rightarrow> Inr s
      | Some m \<Rightarrow>
          if \<not> mouseDown s then Inr s
          else
            (let dx = x - dragStartX (gesture s);
                 dy = y - dragStartY (gesture s)
             in case screenPixelToLocal s of
                  Inl e \<Rightarrow> Inl e
                | Inr k \<Rightarrow>
                    Inr (s \<lparr> hudCube := Some (m
                           \<lparr> position_x := objStartX (gesture s) + dx * k,
                             position_y := objStartY (gesture s) - dy * k \<rparr>) \<rparr>)))"

definition mouseup :: "ar_app \<Rightarrow> ar_app" where
  "mouseup s = s \<lparr> mouseDown := False \<rparr>"

text \<open>The \<^verbatim>\<open>wheel\<close> listener (lines 452-459).\<close>

definition wheel :: "real \<Rightarrow> ar_app \<Rightarrow> ar_app" where
  "wheel deltaY s =
     (case hudCube s of
        None \<Rightarrow> s
      | Some m \<Rightarrow>
          let delta = (if deltaY > 0 then 9/10 else 11/10);
              b = max (3/10) (min 5 (hudCubeBaseScale s * delta))
          in s \<lparr> hudCubeBaseScale := b,
                 hudCube := Some (m \<lparr> scale_x := b, scale_y := b, scale_z := b \<rparr>) \<rparr>)"

text \<open>
  \<^verbatim>\<open>onResize\<close> (lines 676-683), run after the window has taken its new size. The
  renderer is created together with the camera in \<^verbatim>\<open>initVirtualLayer\<close>.
\<close>

definition onResize :: "ar_app \<Rightarrow> error + ar_app" where
  "onResize s =
     (case camera s of
        None \<Rightarrow> Inl (TypeError ''this.camera is null'')
      | Some c \<Rightarrow>
          if innerHeight s = 0 then Inl (NonFinite ''aspect'')
          else Inr (s \<lparr> camera := Some (c \<lparr> aspect := innerWidth s / innerHeight s \<rparr>) \<rparr>))"

text \<open>\<^verbatim>\<open>onDeviceMotion\<close> (lines 304-313); a missing component counts as 0.\<close>

definition onDeviceMotion ::
  "(real option \<times> real option \<times> real option) option \<Rightarrow> ar_app \<Rightarrow> ar_app" where
  "onDeviceMotion eventAcceleration s =
     (case eventAcceleration of
        None \<Rightarrow> s
      | Some (x, y, z) \<Rightarrow>
          s \<lparr> acceleration := Some (case x of None \<Rightarrow> 0 | Some v \<Rightarrow> v,
                                   case y of None \<Rightarrow> 0 | Some v \<Rightarrow> v,
                                   case z of None \<Rightarrow> 0 | Some v \<Rightarrow> v) \<rparr>)"

text \<open>
  The \<^verbatim>\<open>loadedmetadata\<close> listener installed by \<^verbatim>\<open>placeCube\<close> (lines 625-632), with
  the natural size of the current overlay video: the plane is rebuilt at the video's
  aspect ratio.
\<close>

definition onLoadedMetadata :: "nat \<Rightarrow> nat \<Rightarrow> ar_app \<Rightarrow> error + ar_app" where
  "onLoadedMetadata w h s =
     (case hudVideo s of
        None \<Rightarrow> Inl (TypeError ''this.hudVideo is null'')
      | Some v \<Rightarrow>
          if h = 0 then Inl (NonFinite ''aspect'')
          else
            (case hudCube s of
               None \<Rightarrow> Inl (TypeError ''this.hudCube is null'')
             | Some m \<Rightarrow>
                 let aspect = real w / real h;
                     height = 1/2;
                     width = height * aspect;
                     n = nextId s
                 in Inr (s \<lparr> hudCube := Some (m \<lparr> geometry_id := n, plane_width := width,
                                                  plane_height := height \<rparr>),
                            nextId := n + 1,
                            effects := effects s @
                              [GeometryDispose (geometry_id m), CreateGeometry n] \<rparr>)))"

section \<open>The animation tick\<close>

text \<open>
  \<^verbatim>\<open>processSLAM\<close> (lines 722-762). \<open>frame\<close> is what the engine's \<^verbatim>\<open>processFrame\<close>
  returns for this frame (\<open>None\<close> for \<^verbatim>\<open>null\<close>); the engine itself is opaque. The
  frame is handed over at half size, rounded down. The manager works on the camera it
  was constructed with.
\<close>

definition processSLAM :: "vo_result option \<Rightarrow> ar_app \<Rightarrow> error + ar_app" where
  "processSLAM frame s =
     (case (visualOdometry s, video s) of
        (Some vo, Some vid) \<Rightarrow>
          if videoWidth vid = 0 then Inr s
          else
            (let w = videoWidth vid div 2;
                 h = videoHeight vid div 2;
                 s1 = s \<lparr> effects := effects s @ [VOProcessFrame w h] \<rparr>
             in case frame of
                  None \<Rightarrow> Inr s1
                | Some result \<Rightarrow>
                    if tracking result then
                      (case (cameraPoseManager s1, camera s1) of
                         (Some pm, Some c) \<Rightarrow>
                           (let (pm', c') = pm_applyViewMatrix (viewMatrix result) True pm c
                            in Inr (s1 \<lparr> cameraPoseManager := Some pm', camera := Some c',
                                        effects := effects s1 @
                                          [ApplyViewMatrix (viewMatrix result) True,
                                           UpdateStatus] \<rparr>))
                       | _ \<Rightarrow> Inl (TypeError ''this.cameraPoseManager is null''))
                    else Inr s1)
      | _ \<Rightarrow> Inr s)"

text \<open>
  \<^verbatim>\<open>updateCameraFromSensor\<close> (lines 767-798); \<^verbatim>\<open>window.orientation || 0\<close> is the
  screen rotation. Without a manager the rotation is written to the camera directly.
\<close>

definition updateCameraFromSensor :: "ar_app \<Rightarrow> error + ar_app" where
  "updateCameraFromSensor s =
     (case initialOrientation s of
        None \<Rightarrow> Inr s
      | Some initial \<Rightarrow>
          if trackingMode s = Hybrid \<and>
             (case cameraPoseManager s of None \<Rightarrow> False | Some pm \<Rightarrow> pm_isTracking pm)
          then Inr s
          else
            (let screenOrientation = (case windowOrientation s of None \<Rightarrow> 0 | Some x \<Rightarrow> x);
                 d = deviceOrientation s
             in case cameraPoseManager s of
                  Some pm \<Rightarrow>
                    (case camera s of
                       None \<Rightarrow> Inl (TypeError ''camera is null'')
                     | Some c \<Rightarrow>
                         (let (pm', c') = pm_applyDeviceOrientation d screenOrientation pm c
                          in Inr (s \<lparr> cameraPoseManager := Some pm', camera := Some c',
                                     effects := effects s @
                                       [ApplyDeviceOrientation (alpha d) (beta d) (gamma d)
                                          screenOrientation] \<rparr>)))
                | None \<Rightarrow>
                    (case camera s of
                       None \<Rightarrow> Inl (TypeError ''this.camera is null'')
                     | Some c \<Rightarrow>
                         Inr (s \<lparr> camera := Some (c
                                \<lparr> cam_pose := PoseFromOrientation initial d screenOrientation \<rparr>) \<rparr>))))"

text \<open>
  \<^verbatim>\<open>animate\<close> (lines 696-717), one tick. The renderer exists exactly when the camera
  does: \<^verbatim>\<open>initVirtualLayer\<close> creates both. Marking the video texture for upload
  changes nothing that is modelled.
\<close>

definition animate :: "vo_result option \<Rightarrow> ar_app \<Rightarrow> error + ar_app" where
  "animate frame s =
     (if \<not> isRunning s then Inr s
      else
        case (if trackingMode s = Slam \<or> trackingMode s = Hybrid
              then processSLAM frame s else Inr s) of
          Inl e \<Rightarrow> Inl e
        | Inr s1 \<Rightarrow>
            (case (if trackingMode s1 = Sensor \<or> trackingMode s1 = Hybrid
                   then updateCameraFromSensor s1 else Inr s1) of
               Inl e \<Rightarrow> Inl e
             | Inr s2 \<Rightarrow>
                 (case camera s2 of
                    None \<Rightarrow> Inl (TypeError ''this.renderer is null'')
                  | Some c \<Rightarrow> Inr (s2 \<lparr> effects := effects s2 @ [Render] \<rparr>))))"

section \<open>Tracking mode and visual odometry\<close>

text \<open>
  \<^verbatim>\<open>initVisualOdometry\<close> (lines 803-832) is asynchronous: it runs up to the dynamic
  import, resumes when the import settles, and resumes again when the engine's \<^verbatim>\<open>init\<close>
  promise settles. Each of the three segments is a function; the argument of the last two
  says whether the promise was fulfilled. A rejection is caught (line 827).
\<close>

definition initVisualOdometry_start :: "ar_app \<Rightarrow> ar_app" where
  "initVisualOdometry_start s =
     s \<lparr> importsPending := importsPending s + 1,
         effects := effects s @ [ImportVisualOdometry] \<rparr>"

definition initVisualOdometry_imported :: "bool \<Rightarrow> ar_app \<Rightarrow> ar_app" where
  "initVisualOdometry_imported fulfilled s =
     (let s1 = s \<lparr> importsPending := importsPending s - 1 \<rparr>
      in if fulfilled then
           s1 \<lparr> visualOdometry := Some \<lparr> vo_initialized = False, vo_camera_size = None \<rparr>,
                initsPending := initsPending s1 + 1,
                effects := effects s1 @ [VOInit] \<rparr>
         else s1 \<lparr> trackingMode := Sensor \<rparr>)"

definition initVisualOdometry_inited :: "bool \<Rightarrow> ar_app \<Rightarrow> ar_app" where
  "initVisualOdometry_inited fulfilled s =
     (let s1 = s \<lparr> initsPending := initsPending s - 1 \<rparr>
      in if fulfilled then
           (case visualOdometry s1 of
              None \<Rightarrow>
                (case video s1 of
                   None \<Rightarrow> s1 \<lparr> trackingMode := Hybrid \<rparr>
                 | Some vid \<Rightarrow>
                     if videoWidth vid > 0 then s1 \<lparr> trackingMode := Sensor \<rparr>
                     else s1 \<lparr> trackingMode := Hybrid \<rparr>)
            | Some vo \<Rightarrow>
                (case video s1 of
                   None \<Rightarrow>
                     s1 \<lparr> visualOdometry := Some (vo \<lparr> vo_initialized := True \<rparr>),
                          trackingMode := Hybrid \<rparr>
                 | Some vid \<Rightarrow>
                     if videoWidth vid > 0 then
                       s1 \<lparr> visualOdometry := Some (vo
                              \<lparr> vo_initialized := True,
                                vo_camera_size := Some (videoWidth vid, videoHeight vid) \<rparr>),
                            trackingMode := Hybrid,
                            effects := effects s1 @
                              [VOAutoConfigureCamera (videoWidth vid) (videoHeight vid)] \<rparr>
                     else
                       s1 \<lparr> visualOdometry := Some (vo \<lparr> vo_initialized := True \<rparr>),
                            trackingMode := Hybrid \<rparr>))
         else s1 \<lparr> trackingMode := Sensor \<rparr>)"

text \<open>How one call of \<^verbatim>\<open>initVisualOdometry\<close> ends.\<close>

datatype vo_outcome = ImportRejected | InitRejected | InitFulfilled

text \<open>The three segments of one call, with nothing else running in between.\<close>

definition initVisualOdometry :: "vo_outcome \<Rightarrow> ar_app \<Rightarrow> ar_app" where
  "initVisualOdometry outcome s =
     (case outcome of
        ImportRejected \<Rightarrow> initVisualOdometry_imported False (initVisualOdometry_start s)
      | InitRejected \<Rightarrow>
          initVisualOdometry_inited False
            (initVisualOdometry_imported True (initVisualOdometry_start s))
      | InitFulfilled \<Rightarrow>
          initVisualOdometry_inited True
            (initVisualOdometry_imported True (initVisualOdometry_start s)))"

text \<open>
  \<^verbatim>\<open>setTrackingMode\<close> (lines 838-847): the call returns once \<^verbatim>\<open>initVisualOdometry\<close> has
  reached its first \<^verbatim>\<open>await\<close>.
\<close>

definition setTrackingMode :: "tracking_mode \<Rightarrow> ar_app \<Rightarrow> ar_app" where
  "setTrackingMode mode s =
     (let s1 = s \<lparr> trackingMode := mode \<rparr>
      in if (mode = Slam \<or> mode = Hybrid) \<and> visualOdometry s1 = None
         then initVisualOdometry_start s1
         else s1)"

text \<open>
  \<^verbatim>\<open>destroy\<close> (lines 866-879). The camera feed element carries its stream from
  \<^verbatim>\<open>initBackgroundLayer\<close> on.
\<close>

definition destroy :: "ar_app \<Rightarrow> error + ar_app" where
  "destroy s =
     (case cleanupHud (s \<lparr> isRunning := False \<rparr>) of
        Inl e \<Rightarrow> Inl e
      | Inr s1 \<Rightarrow>
          let s2 = (case video s1 of
                      None \<Rightarrow> s1
                    | Some vid \<Rightarrow> s1 \<lparr> effects := effects s1 @ [StopTracks] \<rparr>);
              s3 = (case camera s2 of
                      None \<Rightarrow> s2
                    | Some c \<Rightarrow> s2 \<lparr> effects := effects s2 @ [RendererDispose] \<rparr>);
              s4 = (case visualOdometry s3 of
                      None \<Rightarrow> s3
                    | Some vo \<Rightarrow> s3 \<lparr> effects := effects s3 @ [VODestroy] \<rparr>)
          in Inr s4)"

section \<open>The chroma-key fragment shader\<close>

text \<open>
  The GLSL program of the overlay material (lines 570-601), over real numbers. A colour
  is red, green, blue; a texel carries an alpha as well.
\<close>

type_synonym rgb = "real \<times> real \<times> real"
type_synonym rgba = "real \<times> real \<times> real \<times> real"

definition RGBtoUV :: "rgb \<Rightarrow> real \<times> real" where
  "RGBtoUV c =
     (case c of (r, g, b) \<Rightarrow>
        (r * - 0.169 + g * - 0.331 + b * 0.5 + 0.5,
         r * 0.5 + g * - 0.419 + b * - 0.081 + 0.5))"

text \<open>
  The built-in functions \<^verbatim>\<open>clamp\<close> and \<^verbatim>\<open>smoothstep\<close> as the GLSL ES specification
  defines them: \<^verbatim>\<open>clamp(x, lo, hi) = min(max(x, lo), hi)\<close> and
  \<^verbatim>\<open>smoothstep(e0, e1, x) = t * t * (3 - 2 * t)\<close> with
  \<^verbatim>\<open>t = clamp((x - e0) / (e1 - e0), 0, 1)\<close>. GLSL leaves \<^verbatim>\<open>smoothstep\<close> undefined
  for \<^verbatim>\<open>e0 >= e1\<close>; the function below is meant for \<open>e0 < e1\<close> only.
\<close>

definition glsl_clamp :: "real \<Rightarrow> real \<Rightarrow> real \<Rightarrow> real" where
  "glsl_clamp x lo hi = min (max x lo) hi"

definition smoothstep :: "real \<Rightarrow> real \<Rightarrow> real \<Rightarrow> real" where
  "smoothstep edge0 edge1 x =
     (let t = glsl_clamp ((x - edge0) / (edge1 - edge0)) 0 1
      in t * t * (3 - 2 * t))"

text \<open>The distance of a colour from the key colour in the chroma plane (lines 594-595).\<close>

definition chromaDist :: "rgb \<Rightarrow> rgb \<Rightarrow> real" where
  "chromaDist c key =
     (let cu = fst (RGBtoUV c) - fst (RGBtoUV key);
          cv = snd (RGBtoUV c) - snd (RGBtoUV key)
      in sqrt (cu * cu + cv * cv))"

text \<open>
  \<^verbatim>\<open>main\<close> of the fragment shader: \<open>tex\<close> is the video texture as a function of the
  texture coordinate, \<open>vUv\<close> the interpolated coordinate of the fragment; the result is
  \<^verbatim>\<open>gl_FragColor\<close>.
\<close>

definition fragmentShader :: "uniforms \<Rightarrow> (real \<times> real \<Rightarrow> rgba) \<Rightarrow> real \<times> real \<Rightarrow> rgba" where
  "fragmentShader u tex vUv =
     (let cropRange = 1 - cropTop u - cropBottom u;
          croppedUV = (fst vUv, cropBottom u + snd vUv * cropRange)
      in case tex croppedUV of
           (r, g, b, a) \<Rightarrow>
             let d = chromaDist (r, g, b) (keyColor u);
                 alpha' = smoothstep (similarity u) (similarity u + smoothness u) d
             in (r, g, b, a * alpha'))"

section \<open>Events\<close>

text \<open>
  Everything that can run code of the orchestrator once \<^verbatim>\<open>init\<close> has registered the
  listeners: the host's events, the animation tick, the externally triggered operations
  (\<^verbatim>\<open>window.resetARPose\<close>, \<^verbatim>\<open>window.setARTrackingMode\<close>, \<^verbatim>\<open>window.changeARVideo\<close>,
  \<^verbatim>\<open>beforeunload\<close>) and the settling of the two promises of \<^verbatim>\<open>initVisualOdometry\<close>.
\<close>

datatype event =
    DeviceOrientation orientation
  | DeviceMotion "(real option \<times> real option \<times> real option) option"
  | TouchStart "touch list"
  | TouchMove "touch list"
  | TouchEnd "touch list" "touch list" int
  | MouseDown real real
  | MouseMove real real
  | MouseUp
  | MouseLeave
  | Wheel real
  | Resize real real
  | LoadedMetadata nat nat
  | AnimationFrame "vo_result option"
  | ResetARPose
  | SetARTrackingMode tracking_mode
  | ChangeARVideo "string option"
  | BeforeUnload
  | ImportSettled bool
  | InitSettled bool

text \<open>
  One event. A promise settles only while a call is waiting for it. In \<open>step\<close> a
  handler that ends in an error leaves the state as it was before the event; what the
  handler had assigned up to that point is not modelled.
\<close>

definition handle :: "event \<Rightarrow> ar_app \<Rightarrow> error + ar_app" where
  "handle ev s =
     (case ev of
        DeviceOrientation e \<Rightarrow> Inr (onDeviceOrientation e s)
      | DeviceMotion a \<Rightarrow> Inr (onDeviceMotion a s)
      | TouchStart ts \<Rightarrow> Inr (touchstart ts s)
      | TouchMove ts \<Rightarrow> touchmove ts s
      | TouchEnd ts cs now \<Rightarrow> touchend ts cs now s
      | MouseDown x y \<Rightarrow> mousedown x y s
      | MouseMove x y \<Rightarrow> mousemove x y s
      | MouseUp \<Rightarrow> Inr (mouseup s)
      | MouseLeave \<Rightarrow> Inr (mouseup s)
      | Wheel deltaY \<Rightarrow> Inr (wheel deltaY s)
      | Resize w h \<Rightarrow> onResize (s \<lparr> innerWidth := w, innerHeight := h \<rparr>)
      | LoadedMetadata w h \<Rightarrow> onLoadedMetadata w h s
      | AnimationFrame frame \<Rightarrow> animate frame s
      | ResetARPose \<Rightarrow> Inr (resetPose s)
      | SetARTrackingMode mode \<Rightarrow> Inr (setTrackingMode mode s)
      | ChangeARVideo src \<Rightarrow> placeCube src s
      | BeforeUnload \<Rightarrow> destroy s
      | ImportSettled ok \<Rightarrow>
          Inr (if importsPending s = 0 then s else initVisualOdometry_imported ok s)
      | InitSettled ok \<Rightarrow>
          Inr (if initsPending s = 0 then s else initVisualOdometry_inited ok s))"

definition step :: "event \<Rightarrow> ar_app \<Rightarrow> ar_app" where
  "step ev s = (case handle ev s of Inl e \<Rightarrow> s | Inr s' \<Rightarrow> s')"

fun run :: "event list \<Rightarrow> ar_app \<Rightarrow> ar_app" where
  "run [] s = s"
| "run (ev # evs) s = run evs (step ev s)"

section \<open>Touch sequences\<close>

text \<open>
  A single-pointer touch sequence: one finger goes down at \<open>p\<close>, moves through
  \<open>moves\<close> (each a \<^verbatim>\<open>touchmove\<close> event with its list of touch points) and is lifted
  at \<open>q\<close> when \<^verbatim>\<open>Date.now()\<close> is \<open>now\<close>. A \<^verbatim>\<open>touchmove\<close> listener that raises
  leaves the state as it was, and the sequence goes on.
\<close>

definition single_touch ::
  "touch \<Rightarrow> touch list list \<Rightarrow> touch \<Rightarrow> int \<Rightarrow> ar_app \<Rightarrow> error + ar_app" where
  "single_touch p moves q now s =
     touchend [] [q] now (run (map TouchMove moves) (touchstart [p] s))"

section \<open>Reading the record of calls\<close>

text \<open>
  The video textures that have been created and not disposed, and the video elements
  that have been created and not stopped by \<^verbatim>\<open>pause\<close>, in the order of their creation.
\<close>

definition live_textures :: "effect list \<Rightarrow> nat list" where
  "live_textures es =
     foldl (\<lambda>acc e. case e of
                       CreateTexture t v \<Rightarrow> acc @ [t]
                     | TextureDispose t \<Rightarrow> removeAll t acc
                     | _ \<Rightarrow> acc) [] es"

definition live_videos :: "effect list \<Rightarrow> nat list" where
  "live_videos es =
     foldl (\<lambda>acc e. case e of
                       CreateVideo v \<Rightarrow> acc @ [v]
                     | VideoPause v \<Rightarrow> removeAll v acc
                     | _ \<Rightarrow> acc) [] es"

text \<open>
  At most one overlay: in a ready state the camera's children, the live video elements
  and the live textures are exactly those the fields \<^verbatim>\<open>hudCube\<close>, \<^verbatim>\<open>hudVideo\<close> and
  \<^verbatim>\<open>hudVideoTexture\<close> refer to, the three fields are set or \<^verbatim>\<open>null\<close> together, and
  the mesh's identifier has been handed out already.
\<close>

definition opt_ids :: "('a \<Rightarrow> nat) \<Rightarrow> 'a option \<Rightarrow> nat list" where
  "opt_ids f x = (case x of None \<Rightarrow> [] | Some y \<Rightarrow> [f y])"

definition overlay_inv :: "ar_app \<Rightarrow> bool" where
  "overlay_inv s \<longleftrightarrow>
     isReady s \<and>
     map_option children (camera s) = Some (opt_ids mesh_id (hudCube s)) \<and>
     live_videos (effects s) = opt_ids video_id (hudVideo s) \<and>
     live_textures (effects s) = opt_ids id (hudVideoTexture s) \<and>
     (hudVideo s = None \<longleftrightarrow> hudCube s = None) \<and>
     (hudVideoTexture s = None \<longleftrightarrow> hudCube s = None) \<and>
     (\<forall>i \<in> set (opt_ids mesh_id (hudCube s)). i < nextId s)"

section \<open>Concrete inputs\<close>

text \<open>A touch point at given client coordinates.\<close>

definition touch_at :: "real \<Rightarrow> real \<Rightarrow> touch" where
  "touch_at x y = \<lparr> clientX = x, clientY = y \<rparr>"

text \<open>Three orientation samples; the first one has no primary angle.\<close>

definition sample_null :: orientation where
  "sample_null = \<lparr> alpha = None, beta = Some 10, gamma = Some 20 \<rparr>"

definition sample_a :: orientation where
  "sample_a = \<lparr> alpha = Some 30, beta = Some 10, gamma = Some 20 \<rparr>"

definition sample_b :: orientation where
  "sample_b = \<lparr> alpha = Some 45, beta = None, gamma = Some 5 \<rparr>"

text \<open>
  The state 500 ms after \<^verbatim>\<open>init\<close>, when the timer of line 112 has placed the first
  overlay.
\<close>

definition with_overlay :: ar_app where
  "with_overlay = (case placeCube None initialised of Inl e \<Rightarrow> initialised | Inr s \<Rightarrow> s)"

text \<open>
  A state in hybrid mode with a loaded engine and a recorded reference orientation, and a
  frame result that reports tracking.
\<close>

definition hybrid_running :: ar_app where
  "hybrid_running =
     with_overlay
       \<lparr> visualOdometry := Some \<lparr> vo_initialized = True, vo_camera_size = Some (1280, 720) \<rparr>,
         trackingMode := Hybrid,
         deviceOrientation := sample_b,
         initialOrientation := Some sample_a \<rparr>"

definition tracked_frame :: vo_result where
  "tracked_frame =
     \<lparr> tracking = True,
       viewMatrix = [1, 0, 0, 0,  0, 1, 0, 0,  0, 0, 1, 0,  0, 0, 0, 1],
       featureCount = 120 \<rparr>"

text \<open>
  A state in which both promises of \<^verbatim>\<open>initVisualOdometry\<close> are awaited: two requests
  were made before the first import settled.
\<close>

definition init_pending :: ar_app where
  "init_pending =
     run [SetARTrackingMode Slam, SetARTrackingMode Hybrid, ImportSettled True] initialised"

text \<open>The uniforms of the material that \<^verbatim>\<open>placeCube\<close> builds for the default video.\<close>

definition green_key :: uniforms where
  "green_key = \<lparr> keyColor = (0, 1, 0), similarity = 2/5, smoothness = 1/10,
                 cropTop = 0, cropBottom = 0 \<rparr>"

section \<open>The reference orientation\<close>

lemma onDeviceOrientation_null: "alpha e = None \<Longrightarrow> onDeviceOrientation e s = s"
  by (simp add: onDeviceOrientation_def)

lemma orientation_events_keep:
  "initialOrientation s = Some r \<Longrightarrow> initialOrientation (orientation_events es s) = Some r"
  by (induction es arbitrary: s) (auto simp: onDeviceOrientation_def Let_def)

lemma orientation_events_first:
  "initialOrientation s = None \<Longrightarrow>
   initialOrientation (orientation_events es s) = List.find (\<lambda>e. alpha e \<noteq> None) es"
proof (induction es arbitrary: s)
  case Nil
  then show ?case by simp
next
  case (Cons e es)
  show ?case
  proof (cases "alpha e = None")
    case True
    then show ?thesis using Cons by (simp add: onDeviceOrientation_null)
  next
    case False
    then have "initialOrientation (onDeviceOrientation e s) = Some e"
      using Cons.prems by (simp add: onDeviceOrientation_def Let_def)
    then show ?thesis using False by (simp add: orientation_events_keep)
  qed
qed

lemma resetPose_clears: "initialOrientation (resetPose s) = None"
  by (simp add: resetPose_def Let_def split: option.splits)

text \<open>
  Claim C9. A sample without primary angle leaves the state as it is. Starting without a
  reference, the reference after any sequence of orientation events is the first sample
  of the sequence that has a primary angle (none if there is no such sample); a reference
  that exists is never overwritten by later samples; \<^verbatim>\<open>resetPose\<close> clears it, so that
  the first sample with a primary angle after the reset becomes the new reference.
\<close>

theorem reference_orientation_captured_once:
  "(alpha e = None \<longrightarrow> onDeviceOrientation e s = s) \<and>
   (initialOrientation s = None \<longrightarrow>
      initialOrientation (orientation_events es s) = List.find (\<lambda>e. alpha e \<noteq> None) es) \<and>
   (initialOrientation s = Some r \<longrightarrow>
      initialOrientation (orientation_events es s) = Some r) \<and>
   initialOrientation (resetPose s) = None \<and>
   initialOrientation (orientation_events es (resetPose s)) =
      List.find (\<lambda>e. alpha e \<noteq> None) es"
  using onDeviceOrientation_null orientation_events_keep orientation_events_first resetPose_clears
  by blast

theorem reference_orientation_captured_once_witness:
  "alpha sample_null = None \<and>
   onDeviceOrientation sample_null initialised = initialised \<and>
   initialOrientation initialised = None \<and>
   initialOrientation (orientation_events [sample_null, sample_a, sample_b] initialised)
     = Some sample_a \<and>
   initialOrientation (orientation_events [sample_a] initialised) = Some sample_a \<and>
   initialOrientation (orientation_events [sample_null, sample_b]
       (orientation_events [sample_a] initialised)) = Some sample_a \<and>
   initialOrientation (orientation_events [sample_null, sample_b, sample_a]
       (resetPose (orientation_events [sample_a] initialised))) = Some sample_b"
  using
    reference_orientation_captured_once
      [of sample_null initialised "[sample_null, sample_a, sample_b]" sample_a]
    reference_orientation_captured_once
      [of sample_null "orientation_events [sample_a] initialised" "[sample_null, sample_b]"
          sample_a]
    reference_orientation_captured_once
      [of sample_null "orientation_events [sample_a] initialised"
          "[sample_null, sample_b, sample_a]" sample_a]
  by (simp add: sample_null_def sample_a_def sample_b_def initialised_def constructed_def
        onDeviceOrientation_def)

section \<open>Overlay placement before initialisation\<close>

text \<open>
  Claim C10. While the ready flag is false, \<^verbatim>\<open>placeCube\<close> returns at once: the state
  is unchanged, so no video element, texture or mesh is created, nothing is disposed and
  not even the media source is updated.
\<close>

theorem placeCube_before_ready_is_noop: "\<not> isReady s \<Longrightarrow> placeCube videoSrc s = Inr s"
  by (simp add: placeCube_def)

theorem placeCube_before_ready_is_noop_witness:
  "\<not> isReady constructed \<and> placeCube (Some ''singgang2.mp4'') constructed = Inr constructed"
  using placeCube_before_ready_is_noop [of constructed "Some ''singgang2.mp4''"]
  by (simp add: constructed_def)

section \<open>Replacing the overlay\<close>

text \<open>The fields of the state with the first overlay.\<close>

lemma with_overlay_fields:
  "isReady with_overlay"
  "isRunning with_overlay"
  "camera with_overlay = Some \<lparr> fov = 70, aspect = 1/2, children = [4], cam_pose = PoseInitial \<rparr>"
  "hudCube with_overlay = Some \<lparr>mesh_id = 4, geometry_id = 3, material_id = 2,
       plane_width = 1 / 2, plane_height = 1 / 2,
       mesh_uniforms = \<lparr>keyColor = (0, 1, 0), similarity = 2 / 5, smoothness = 1 / 10,
                         cropTop = 0, cropBottom = 0\<rparr>,
       position_x = 0, position_y = 0, position_z = - (3 / 2),
       scale_x = 1, scale_y = 1, scale_z = 1\<rparr>"
  "hudVideo with_overlay = Some \<lparr> video_id = 0, v_loop = True, v_muted = True,
       v_playsInline = True, v_src = ''greetgang.mp4'', v_volume = 1 \<rparr>"
  "hudVideoTexture with_overlay = Some 1"
  "nextId with_overlay = 5"
  "hudCubeBaseScale with_overlay = 1"
  "innerHeight with_overlay = 800"
  "video with_overlay = Some \<lparr> videoWidth = 1280, videoHeight = 720 \<rparr>"
  "cameraPoseManager with_overlay =
     Some \<lparr> pm_isTracking = False, pm_reference = None, pm_accumulator = None,
            pm_smoothing = (True, 1/5) \<rparr>"
  "trackingMode with_overlay = Sensor"
  "visualOdometry with_overlay = None"
  "lastTap with_overlay = 0"
  "windowOrientation with_overlay = None"
  "gesture with_overlay = \<lparr> isDragging = False, isPinching = False, dragStartX = 0, dragStartY = 0,
                   objStartX = 0, objStartY = 0, pinchStartDist = 0, pinchStartScale = 1 \<rparr>"
  by (simp_all add: with_overlay_def placeCube_def cleanupHud_def initialised_def
        constructed_def Let_def)

lemma with_overlay_effects:
  "effects with_overlay =
     [CreateVideo 0, VideoSetSrc 0 ''greetgang.mp4'', VideoLoad 0, CreateTexture 1 0,
      CreateMaterial 2 1, CreateGeometry 3, CreateMesh 4 3 2, CameraAdd 4]"
  by (simp add: with_overlay_def placeCube_def cleanupHud_def initialised_def
        constructed_def Let_def)

lemma with_overlay_live:
  "live_videos (effects with_overlay) = [0]" "live_textures (effects with_overlay) = [1]"
  by (simp_all add: with_overlay_effects live_videos_def live_textures_def)

lemma live_textures_append:
  "live_textures (es @ fs) =
     foldl (\<lambda>acc e. case e of CreateTexture t v \<Rightarrow> acc @ [t]
                            | TextureDispose t \<Rightarrow> removeAll t acc
                            | _ \<Rightarrow> acc) (live_textures es) fs"
  by (simp add: live_textures_def)

lemma live_videos_append:
  "live_videos (es @ fs) =
     foldl (\<lambda>acc e. case e of CreateVideo v \<Rightarrow> acc @ [v]
                            | VideoPause v \<Rightarrow> removeAll v acc
                            | _ \<Rightarrow> acc) (live_videos es) fs"
  by (simp add: live_videos_def)

text \<open>
  Claim C4. Placing an overlay while one exists (mesh, video element and texture) leaves
  exactly one overlay: the fields refer to the new mesh, video element and texture, the
  old mesh is no longer a child of the camera and the new one is (the only one, if the
  old one was). The calls recorded are, in this order, the release of the old overlay
  (detach from the camera, dispose geometry and material, dispose the texture, pause the
  video and clear its source) and only then the construction of the new one. If the old
  video element and texture were the only live ones, the new ones are the only live ones
  afterwards.
\<close>

theorem placeCube_replaces_overlay:
  assumes "isReady s" and "camera s = Some c" and "hudCube s = Some m"
    and "hudVideo s = Some v" and "hudVideoTexture s = Some t"
    and "mesh_id m < nextId s"
  shows "\<exists>s'. placeCube videoSrc s = Inr s' \<and>
      map_option mesh_id (hudCube s') = Some (nextId s + 4) \<and>
      map_option video_id (hudVideo s') = Some (nextId s) \<and>
      hudVideoTexture s' = Some (nextId s + 1) \<and>
      map_option children (camera s') =
        Some (removeAll (mesh_id m) (children c) @ [nextId s + 4]) \<and>
      mesh_id m \<notin> set (removeAll (mesh_id m) (children c) @ [nextId s + 4]) \<and>
      (children c = [mesh_id m] \<longrightarrow> map_option children (camera s') = Some [nextId s + 4]) \<and>
      effects s' = effects s @
         [CameraRemove (mesh_id m), GeometryDispose (geometry_id m),
          MaterialDispose (material_id m), TextureDispose t,
          VideoPause (video_id v), VideoSetSrc (video_id v) ''''] @
         [CreateVideo (nextId s), VideoSetSrc (nextId s) (currentVideoSrc s'),
          VideoLoad (nextId s), CreateTexture (nextId s + 1) (nextId s),
          CreateMaterial (nextId s + 2) (nextId s + 1), CreateGeometry (nextId s + 3),
          CreateMesh (nextId s + 4) (nextId s + 3) (nextId s + 2),
          CameraAdd (nextId s + 4)] \<and>
      (live_videos (effects s) = [video_id v] \<longrightarrow> live_videos (effects s') = [nextId s]) \<and>
      (live_textures (effects s) = [t] \<longrightarrow> live_textures (effects s') = [nextId s + 1])"
  using assms
  by (cases videoSrc)
     (simp_all add: placeCube_def cleanupHud_def Let_def live_videos_append live_textures_append)

theorem placeCube_replaces_overlay_witness:
  "isReady with_overlay \<and> hudVideoTexture with_overlay = Some 1 \<and>
   map_option mesh_id (hudCube with_overlay) = Some 4 \<and>
   map_option video_id (hudVideo with_overlay) = Some 0 \<and>
   map_option children (camera with_overlay) = Some [4] \<and>
   live_videos (effects with_overlay) = [0] \<and> live_textures (effects with_overlay) = [1] \<and>
   (\<exists>s'. placeCube (Some ''singgang2.mp4'') with_overlay = Inr s' \<and>
      map_option mesh_id (hudCube s') = Some 9 \<and>
      map_option video_id (hudVideo s') = Some 5 \<and>
      hudVideoTexture s' = Some 6 \<and>
      map_option children (camera s') = Some [9] \<and>
      live_videos (effects s') = [5] \<and> live_textures (effects s') = [6])"
proof -
  have m: "mesh_id \<lparr>mesh_id = 4, geometry_id = 3, material_id = 2,
       plane_width = 1 / 2, plane_height = 1 / 2,
       mesh_uniforms = \<lparr>keyColor = (0, 1, 0), similarity = 2 / 5, smoothness = 1 / 10,
                         cropTop = 0, cropBottom = 0\<rparr>,
       position_x = 0, position_y = 0, position_z = - (3 / 2),
       scale_x = 1, scale_y = 1, scale_z = 1\<rparr> < nextId with_overlay"
    by (simp add: with_overlay_fields)
  show ?thesis
    using placeCube_replaces_overlay
      [OF with_overlay_fields(1) with_overlay_fields(3) with_overlay_fields(4)
          with_overlay_fields(5) with_overlay_fields(6) m, of "Some ''singgang2.mp4''"]
      with_overlay_live
    by (auto simp add: with_overlay_fields)
qed

section \<open>At most one overlay in every reachable state\<close>

text \<open>
  The premises of the theorem above are not a restriction: every state that the events
  can reach from the initialised one satisfies \<open>overlay_inv\<close>, so that an overlay, where
  one exists, has its video element and texture, is the camera's only child, and the app
  is ready.
\<close>

lemma opt_ids_simps [simp]: "opt_ids f None = []" "opt_ids f (Some y) = [f y]"
  by (simp_all add: opt_ids_def)

lemma opt_ids_map: "map_option f x = map_option f y \<Longrightarrow> opt_ids f x = opt_ids f y"
  by (cases x; cases y) simp_all

lemma overlay_inv_initialised: "overlay_inv initialised"
  by (simp add: overlay_inv_def initialised_def constructed_def live_videos_def live_textures_def)

lemma overlay_inv_frame:
  assumes "overlay_inv s"
    and "isReady s' = isReady s" and "map_option children (camera s') = map_option children (camera s)"
    and "map_option mesh_id (hudCube s') = map_option mesh_id (hudCube s)"
    and "hudVideo s' = hudVideo s" and "hudVideoTexture s' = hudVideoTexture s"
    and "nextId s \<le> nextId s'"
    and "live_videos (effects s') = live_videos (effects s)"
    and "live_textures (effects s') = live_textures (effects s)"
  shows "overlay_inv s'"
proof -
  have a: "opt_ids mesh_id (hudCube s') = opt_ids mesh_id (hudCube s)"
    using assms(4) by (rule opt_ids_map)
  have b: "(hudCube s' = None) = (hudCube s = None)"
    using assms(4) by (cases "hudCube s'"; cases "hudCube s") simp_all
  have c: "\<forall>i \<in> set (opt_ids mesh_id (hudCube s')). i < nextId s'"
    using assms(1,7) unfolding a overlay_inv_def by auto
  show ?thesis
    unfolding overlay_inv_def using assms(1) c
    by (simp only: a b assms(2,3,5,6,8,9) overlay_inv_def) 
qed

lemma cleanupHud_full:
  assumes "camera s = Some c" "hudCube s = Some m" "hudVideo s = Some v" "hudVideoTexture s = Some t"
  shows "cleanupHud s = Inr (s \<lparr> camera := Some (c \<lparr> children := removeAll (mesh_id m) (children c) \<rparr>),
            hudCube := None, hudVideoTexture := None, hudVideo := None,
            effects := effects s @ [CameraRemove (mesh_id m), GeometryDispose (geometry_id m),
               MaterialDispose (material_id m), TextureDispose t, VideoPause (video_id v),
               VideoSetSrc (video_id v) ''''] \<rparr>)"
  using assms by (simp add: cleanupHud_def Let_def)

lemma cleanupHud_inv:
  assumes "overlay_inv s"
  shows "\<exists>s'. cleanupHud s = Inr s' \<and> overlay_inv s' \<and> hudCube s' = None \<and>
           nextId s' = nextId s \<and> currentVideoSrc s' = currentVideoSrc s"
proof (cases "hudCube s")
  case None
  then have "hudVideo s = None" "hudVideoTexture s = None"
    using assms by (simp_all add: overlay_inv_def)
  then show ?thesis using None assms by (simp add: cleanupHud_def Let_def)
next
  case (Some m)
  then obtain v t c where f: "hudVideo s = Some v" "hudVideoTexture s = Some t"
    "camera s = Some c" "children c = [mesh_id m]"
    using assms by (auto simp: overlay_inv_def)
  show ?thesis
    using assms by (simp add: cleanupHud_full [OF f(3) Some f(1) f(2)] f(4) overlay_inv_def
      live_videos_append live_textures_append Some f(1,2))
qed

lemma placeCube_inv:
  assumes "overlay_inv s" and "placeCube src s = Inr s'"
  shows "overlay_inv s'"
proof -
  let ?s1 = "case src of None \<Rightarrow> s
             | Some x \<Rightarrow> if x = [] then s else s \<lparr> currentVideoSrc := x \<rparr>"
  have i1: "overlay_inv ?s1"
    using assms(1) by (auto simp: overlay_inv_def split: option.splits)
  from cleanupHud_inv [OF i1] obtain s2 where s2: "cleanupHud ?s1 = Inr s2" "overlay_inv s2"
    "hudCube s2 = None"
    by blast
  from s2(2,3) obtain c where c: "camera s2 = Some c" "children c = []"
    "hudVideo s2 = None" "hudVideoTexture s2 = None" "isReady s2"
    "live_videos (effects s2) = []" "live_textures (effects s2) = []"
    by (auto simp: overlay_inv_def)
  have r: "isReady s" using assms(1) by (simp add: overlay_inv_def)
  show ?thesis
    using assms(2) r s2(1) c
    by (auto simp: placeCube_def Let_def overlay_inv_def live_videos_append live_textures_append)
qed

lemma overlay_inv_gesture [simp]: "overlay_inv (s \<lparr> gesture := g \<rparr>) = overlay_inv s"
  by (simp add: overlay_inv_def)

lemma overlay_inv_lastTap [simp]: "overlay_inv (s \<lparr> lastTap := t \<rparr>) = overlay_inv s"
  by (simp add: overlay_inv_def)

lemma touchstart_inv: "overlay_inv s \<Longrightarrow> overlay_inv (touchstart ts s)"
  by (auto simp: touchstart_def split: option.splits list.splits)

lemma touchmove_inv: "overlay_inv s \<Longrightarrow> touchmove ts s = Inr s' \<Longrightarrow> overlay_inv s'"
  by (rule overlay_inv_frame [of s])
     (auto simp: touchmove_def Let_def split: option.splits list.splits sum.splits if_splits)

lemma touchend_inv:
  assumes "overlay_inv s" and "touchend ts cs now s = Inr s'"
  shows "overlay_inv s'"
proof (cases ts)
  case Nil
  show ?thesis
  proof (cases "placeCube None s")
    case (Inl e)
    then show ?thesis using assms Nil
      by (auto simp: touchend_def Let_def split: if_splits)
  next
    case (Inr sp)
    then have "overlay_inv sp" using assms(1) placeCube_inv by blast
    then show ?thesis using assms Nil Inr
      by (auto simp: touchend_def Let_def split: if_splits)
  qed
next
  case (Cons t ts')
  then show ?thesis using assms
    by (cases ts') (auto simp: touchend_def)
qed


lemma mousedown_inv: "overlay_inv s \<Longrightarrow> mousedown x y s = Inr s' \<Longrightarrow> overlay_inv s'"
proof (cases "hudCube s")
  case None
  assume "overlay_inv s" "mousedown x y s = Inr s'"
  then show ?thesis using None placeCube_inv by (simp add: mousedown_def)
next
  case (Some m)
  assume "overlay_inv s" "mousedown x y s = Inr s'"
  then show ?thesis using Some
    by (auto simp: mousedown_def intro: overlay_inv_frame [of s])
qed

lemma mousemove_inv: "overlay_inv s \<Longrightarrow> mousemove x y s = Inr s' \<Longrightarrow> overlay_inv s'"
  by (rule overlay_inv_frame [of s])
     (auto simp: mousemove_def Let_def split: option.splits sum.splits if_splits)

lemma mouseup_inv: "overlay_inv s \<Longrightarrow> overlay_inv (mouseup s)"
  by (rule overlay_inv_frame [of s]) (auto simp: mouseup_def)

lemma wheel_inv: "overlay_inv s \<Longrightarrow> overlay_inv (wheel d s)"
  by (rule overlay_inv_frame [of s]) (auto simp: wheel_def Let_def split: option.splits)

lemma onResize_inv:
  "overlay_inv s \<Longrightarrow> onResize (s \<lparr> innerWidth := w, innerHeight := h \<rparr>) = Inr s' \<Longrightarrow>
   overlay_inv s'"
  by (rule overlay_inv_frame [of s]) (auto simp: onResize_def split: option.splits if_splits)

lemma onDeviceMotion_inv: "overlay_inv s \<Longrightarrow> overlay_inv (onDeviceMotion a s)"
  by (rule overlay_inv_frame [of s]) (auto simp: onDeviceMotion_def split: option.splits)

lemma onDeviceOrientation_inv: "overlay_inv s \<Longrightarrow> overlay_inv (onDeviceOrientation e s)"
  by (rule overlay_inv_frame [of s]) (auto simp: onDeviceOrientation_def Let_def)

lemma onLoadedMetadata_inv:
  "overlay_inv s \<Longrightarrow> onLoadedMetadata w h s = Inr s' \<Longrightarrow> overlay_inv s'"
  by (rule overlay_inv_frame [of s])
     (auto simp: onLoadedMetadata_def Let_def live_videos_append live_textures_append
        split: option.splits if_splits)

lemma processSLAM_inv: "overlay_inv s \<Longrightarrow> processSLAM f s = Inr s' \<Longrightarrow> overlay_inv s'"
  by (rule overlay_inv_frame [of s])
     (auto simp: processSLAM_def Let_def pm_applyViewMatrix_def live_videos_append
        live_textures_append split: option.splits if_splits prod.splits)

lemma updateCameraFromSensor_inv:
  "overlay_inv s \<Longrightarrow> updateCameraFromSensor s = Inr s' \<Longrightarrow> overlay_inv s'"
  by (rule overlay_inv_frame [of s])
     (auto simp: updateCameraFromSensor_def Let_def pm_applyDeviceOrientation_def
        live_videos_append live_textures_append split: option.splits if_splits prod.splits)

lemma render_inv:
  "overlay_inv s \<Longrightarrow> overlay_inv (s \<lparr> effects := effects s @ [Render] \<rparr>)"
  by (rule overlay_inv_frame [of s]) (auto simp: live_videos_append live_textures_append)

lemma animate_inv: "overlay_inv s \<Longrightarrow> animate f s = Inr s' \<Longrightarrow> overlay_inv s'"
  unfolding animate_def
  by (auto split: option.splits if_splits sum.splits
      dest: processSLAM_inv updateCameraFromSensor_inv intro: render_inv)

lemma resetPose_inv: "overlay_inv s \<Longrightarrow> overlay_inv (resetPose s)"
  by (rule overlay_inv_frame [of s])
     (auto simp: resetPose_def Let_def live_videos_append live_textures_append
        split: option.splits)

lemma setTrackingMode_inv: "overlay_inv s \<Longrightarrow> overlay_inv (setTrackingMode m s)"
  by (rule overlay_inv_frame [of s])
     (auto simp: setTrackingMode_def initVisualOdometry_start_def Let_def live_videos_append
        live_textures_append)

lemma imported_inv: "overlay_inv s \<Longrightarrow> overlay_inv (initVisualOdometry_imported ok s)"
  by (rule overlay_inv_frame [of s])
     (auto simp: initVisualOdometry_imported_def Let_def live_videos_append
        live_textures_append)

lemma inited_inv: "overlay_inv s \<Longrightarrow> overlay_inv (initVisualOdometry_inited ok s)"
  by (rule overlay_inv_frame [of s])
     (auto simp: initVisualOdometry_inited_def Let_def live_videos_append
        live_textures_append split: option.splits)

lemma destroy_inv: "overlay_inv s \<Longrightarrow> destroy s = Inr s' \<Longrightarrow> overlay_inv s'"
proof -
  assume i: "overlay_inv s" and d: "destroy s = Inr s'"
  have "overlay_inv (s \<lparr> isRunning := False \<rparr>)"
    using i by (simp add: overlay_inv_def)
  from cleanupHud_inv [OF this] obtain s1 where
    s1: "cleanupHud (s \<lparr> isRunning := False \<rparr>) = Inr s1" "overlay_inv s1"
    by blast
  have "overlay_inv s'"
    by (rule overlay_inv_frame [OF s1(2)])
       (use d s1(1) in \<open>auto simp: destroy_def Let_def live_videos_append live_textures_append
          split: option.splits\<close>)
  then show ?thesis .
qed

lemma step_inv: "overlay_inv s \<Longrightarrow> overlay_inv (step ev s)"
proof (cases "handle ev s")
  case (Inl e)
  assume "overlay_inv s"
  then show ?thesis using Inl by (simp add: step_def)
next
  case (Inr s')
  assume i: "overlay_inv s"
  have "overlay_inv s'"
    using Inr i
    by (cases ev)
       (auto simp: handle_def touchstart_inv wheel_inv onDeviceMotion_inv
          onDeviceOrientation_inv resetPose_inv setTrackingMode_inv imported_inv inited_inv
          mouseup_inv
          dest: touchmove_inv touchend_inv mousedown_inv mousemove_inv onResize_inv
            onLoadedMetadata_inv animate_inv destroy_inv placeCube_inv
          split: if_splits)
  then show ?thesis using Inr by (simp add: step_def)
qed

lemma overlay_inv_reachable: "overlay_inv (run evs initialised)"
proof -
  have "overlay_inv s \<Longrightarrow> overlay_inv (run evs s)" for s
    by (induction evs arbitrary: s) (simp_all add: step_inv)
  then show ?thesis using overlay_inv_initialised by blast
qed

lemma overlay_exists_ready:
  assumes "hudCube (run evs initialised) = Some m"
  shows "isReady (run evs initialised) \<and>
         map_option children (camera (run evs initialised)) = Some [mesh_id m] \<and>
         hudVideo (run evs initialised) \<noteq> None \<and>
         hudVideoTexture (run evs initialised) \<noteq> None \<and>
         mesh_id m < nextId (run evs initialised)"
  using overlay_inv_reachable [of evs] assms by (simp add: overlay_inv_def)

section \<open>Arbitration between visual odometry and the sensor\<close>

lemma hybrid_running_fields:
  "isRunning hybrid_running"
  "trackingMode hybrid_running = Hybrid"
  "visualOdometry hybrid_running = Some \<lparr> vo_initialized = True, vo_camera_size = Some (1280, 720) \<rparr>"
  "video hybrid_running = Some \<lparr> videoWidth = 1280, videoHeight = 720 \<rparr>"
  "cameraPoseManager hybrid_running =
     Some \<lparr> pm_isTracking = False, pm_reference = None, pm_accumulator = None,
            pm_smoothing = (True, 1/5) \<rparr>"
  "camera hybrid_running = Some \<lparr> fov = 70, aspect = 1/2, children = [4], cam_pose = PoseInitial \<rparr>"
  "initialOrientation hybrid_running = Some sample_a"
  "deviceOrientation hybrid_running = sample_b"
  "windowOrientation hybrid_running = None"
  by (simp_all add: hybrid_running_def with_overlay_fields)

text \<open>
  Claim C1. In hybrid mode, on a running tick for which the engine is present, the camera
  feed has a frame size and \<^verbatim>\<open>processFrame\<close> reports tracking, the tick calls the
  engine, applies the view matrix with smoothing, updates the status text and renders,
  and calls nothing else: \<^verbatim>\<open>applyDeviceOrientation\<close> is not invoked, whatever
  orientation samples have arrived. The camera pose after the tick is the pose derived
  from the view matrix, blended from the manager's accumulator. The pose manager is the
  one modelled from the specification: the test of line 771 reads the flag that its
  \<^verbatim>\<open>applyViewMatrix\<close> sets.
\<close>

theorem hybrid_tick_takes_vo_pose:
  assumes "isRunning s" and "trackingMode s = Hybrid"
    and "visualOdometry s = Some vo" and "video s = Some vid" and "videoWidth vid \<noteq> 0"
    and "cameraPoseManager s = Some pm" and "camera s = Some c"
    and "tracking result"
  shows "\<exists>s'. animate (Some result) s = Inr s' \<and>
      effects s' = effects s @
        [VOProcessFrame (videoWidth vid div 2) (videoHeight vid div 2),
         ApplyViewMatrix (viewMatrix result) True, UpdateStatus, Render] \<and>
      (\<forall>a b g so. ApplyDeviceOrientation a b g so \<notin> set (drop (length (effects s)) (effects s'))) \<and>
      map_option cam_pose (camera s') =
        Some (PoseFromViewMatrix (viewMatrix result) True (pm_accumulator pm))"
  using assms
  by (simp add: animate_def processSLAM_def updateCameraFromSensor_def pm_applyViewMatrix_def
        Let_def split: option.splits)

theorem hybrid_tick_takes_vo_pose_witness:
  "isRunning hybrid_running \<and> trackingMode hybrid_running = Hybrid \<and>
   initialOrientation hybrid_running = Some sample_a \<and> tracking tracked_frame \<and>
   (\<exists>s'. animate (Some tracked_frame) hybrid_running = Inr s' \<and>
      effects s' = effects hybrid_running @
        [VOProcessFrame 640 360, ApplyViewMatrix (viewMatrix tracked_frame) True,
         UpdateStatus, Render] \<and>
      map_option cam_pose (camera s') =
        Some (PoseFromViewMatrix (viewMatrix tracked_frame) True None))"
proof -
  have w: "videoWidth \<lparr> videoWidth = 1280, videoHeight = 720 \<rparr> \<noteq> 0" by simp
  have t: "tracking tracked_frame" by (simp add: tracked_frame_def)
  show ?thesis
    using hybrid_tick_takes_vo_pose
      [OF hybrid_running_fields(1) hybrid_running_fields(2) hybrid_running_fields(3)
          hybrid_running_fields(4) w hybrid_running_fields(5) hybrid_running_fields(6) t]
      t
    by (auto simp add: hybrid_running_fields)
qed

text \<open>
  For comparison: the same tick with a frame that reports no tracking falls back to the
  sensor.
\<close>

lemma hybrid_tick_sensor_fallback:
  "\<exists>s'. animate (Some (tracked_frame \<lparr> tracking := False \<rparr>)) hybrid_running = Inr s' \<and>
     effects s' = effects hybrid_running @
        [VOProcessFrame 640 360, ApplyDeviceOrientation (Some 45) None (Some 5) 0, Render]"
  by (simp add: animate_def processSLAM_def updateCameraFromSensor_def pm_applyDeviceOrientation_def
        Let_def hybrid_running_fields tracked_frame_def sample_b_def)

section \<open>Failure of the visual-odometry initialisation\<close>

text \<open>
  Whichever promise is rejected, the mode is \<^verbatim>\<open>sensor\<close> afterwards; a rejected import
  leaves the engine field as it was.
\<close>

lemma init_failure_mode_sensor:
  "outcome \<noteq> InitFulfilled \<Longrightarrow> trackingMode (initVisualOdometry outcome s) = Sensor"
  by (cases outcome) (simp_all add: initVisualOdometry_def initVisualOdometry_inited_def
        initVisualOdometry_imported_def initVisualOdometry_start_def Let_def)

lemma import_rejection_keeps_field:
  "visualOdometry (initVisualOdometry ImportRejected s) = visualOdometry s"
  by (simp add: initVisualOdometry_def initVisualOdometry_inited_def
        initVisualOdometry_imported_def initVisualOdometry_start_def Let_def)

text \<open>
  Claim C2. The part of the claim about the engine reference fails when the engine's
  \<^verbatim>\<open>init\<close> promise is rejected: line 809 has stored the new engine before \<^verbatim>\<open>init\<close>
  is awaited, and the handler of line 827 only resets the mode. Evaluated on the state
  after \<^verbatim>\<open>init\<close>: the mode is \<^verbatim>\<open>sensor\<close>, the field holds the engine whose
  initialisation failed (after a rejected import it is still \<^verbatim>\<open>null\<close>), and a later
  request for \<^verbatim>\<open>slam\<close> starts no second import (line 843 finds the field set) while
  the next tick hands a frame to that engine.
\<close>

theorem vo_init_rejection_leaves_engine:
  "trackingMode (run [SetARTrackingMode Slam, ImportSettled True, InitSettled False] initialised)
     = Sensor \<and>
   visualOdometry (run [SetARTrackingMode Slam, ImportSettled True, InitSettled False] initialised)
     = Some \<lparr> vo_initialized = False, vo_camera_size = None \<rparr> \<and>
   visualOdometry (run [SetARTrackingMode Slam, ImportSettled False] initialised) = None \<and>
   effects (run [SetARTrackingMode Slam, ImportSettled True, InitSettled False,
                 SetARTrackingMode Slam, AnimationFrame (Some tracked_frame)] initialised)
     = [ImportVisualOdometry, VOInit, VOProcessFrame 640 360,
        ApplyViewMatrix (viewMatrix tracked_frame) True, UpdateStatus, Render]"
  by (simp add: step_def handle_def setTrackingMode_def initVisualOdometry_start_def
        initVisualOdometry_imported_def initVisualOdometry_inited_def animate_def
        processSLAM_def pm_applyViewMatrix_def tracked_frame_def
        initialised_def constructed_def Let_def)

section \<open>What changes the tracking mode\<close>

text \<open>No handler other than those of the mode request and of the two promises writes the mode.\<close>

lemma cleanupHud_mode: "cleanupHud s = Inr s' \<Longrightarrow> trackingMode s' = trackingMode s"
  by (auto simp: cleanupHud_def Let_def split: option.splits)

lemma placeCube_mode: "placeCube src s = Inr s' \<Longrightarrow> trackingMode s' = trackingMode s"
  by (auto simp: placeCube_def Let_def split: option.splits sum.splits if_splits dest!: cleanupHud_mode)

lemma touchstart_mode: "trackingMode (touchstart ts s) = trackingMode s"
  by (auto simp: touchstart_def split: option.splits list.splits)

lemma touchmove_mode: "touchmove ts s = Inr s' \<Longrightarrow> trackingMode s' = trackingMode s"
  by (auto simp: touchmove_def Let_def split: option.splits list.splits sum.splits if_splits)

lemma touchend_mode: "touchend ts cs now s = Inr s' \<Longrightarrow> trackingMode s' = trackingMode s"
  by (auto simp: touchend_def Let_def split: option.splits list.splits sum.splits if_splits dest!: placeCube_mode)

lemma mousedown_mode: "mousedown x y s = Inr s' \<Longrightarrow> trackingMode s' = trackingMode s"
  by (auto simp: mousedown_def split: option.splits dest!: placeCube_mode)

lemma mousemove_mode: "mousemove x y s = Inr s' \<Longrightarrow> trackingMode s' = trackingMode s"
  by (auto simp: mousemove_def Let_def split: option.splits sum.splits if_splits)

lemma wheel_mode: "trackingMode (wheel d s) = trackingMode s"
  by (auto simp: wheel_def Let_def split: option.splits)

lemma onResize_mode: "onResize s = Inr s' \<Longrightarrow> trackingMode s' = trackingMode s"
  by (auto simp: onResize_def split: option.splits if_splits)

lemma onDeviceMotion_mode: "trackingMode (onDeviceMotion a s) = trackingMode s"
  by (auto simp: onDeviceMotion_def split: option.splits)

lemma onDeviceOrientation_mode: "trackingMode (onDeviceOrientation e s) = trackingMode s"
  by (auto simp: onDeviceOrientation_def Let_def)

lemma onLoadedMetadata_mode: "onLoadedMetadata w h s = Inr s' \<Longrightarrow> trackingMode s' = trackingMode s"
  by (auto simp: onLoadedMetadata_def Let_def split: option.splits if_splits)

lemma processSLAM_mode: "processSLAM f s = Inr s' \<Longrightarrow> trackingMode s' = trackingMode s"
  by (auto simp: processSLAM_def Let_def split: option.splits if_splits prod.splits)

lemma updateCameraFromSensor_mode:
  "updateCameraFromSensor s = Inr s' \<Longrightarrow> trackingMode s' = trackingMode s"
  by (auto simp: updateCameraFromSensor_def Let_def split: option.splits if_splits prod.splits)

lemma animate_mode: "animate f s = Inr s' \<Longrightarrow> trackingMode s' = trackingMode s"
  unfolding animate_def
  by (auto split: option.splits if_splits sum.splits
      dest!: processSLAM_mode updateCameraFromSensor_mode)

lemma resetPose_mode: "trackingMode (resetPose s) = trackingMode s"
  by (auto simp: resetPose_def Let_def split: option.splits)

lemma destroy_mode: "destroy s = Inr s' \<Longrightarrow> trackingMode s' = trackingMode s"
  by (auto simp: destroy_def Let_def split: option.splits sum.splits dest!: cleanupHud_mode)

lemma imported_ok_mode: "trackingMode (initVisualOdometry_imported True s) = trackingMode s"
  by (simp add: initVisualOdometry_imported_def Let_def)

lemma other_events_keep_mode:
  assumes "\<forall>m. ev \<noteq> SetARTrackingMode m" and "ev \<noteq> ImportSettled False"
    and "\<forall>ok. ev \<noteq> InitSettled ok"
  shows "trackingMode (step ev s) = trackingMode s"
proof (cases "handle ev s")
  case (Inl e)
  then show ?thesis by (simp add: step_def)
next
  case (Inr s')
  then have "trackingMode s' = trackingMode s"
    using assms
    by (cases ev)
       (auto simp: handle_def touchstart_mode wheel_mode onDeviceMotion_mode
          onDeviceOrientation_mode resetPose_mode imported_ok_mode mouseup_def
          dest: touchmove_mode touchend_mode mousedown_mode mousemove_mode onResize_mode
            onLoadedMetadata_mode animate_mode destroy_mode placeCube_mode
          split: if_splits)
  then show ?thesis using Inr by (simp add: step_def)
qed

text \<open>
  Claim C3, as stated, fails: once the engine has been initialised the mode becomes
  \<^verbatim>\<open>hybrid\<close> (line 823), although \<^verbatim>\<open>slam\<close> was requested.
\<close>

theorem mode_changed_by_successful_init:
  "trackingMode (step (ImportSettled True) (step (SetARTrackingMode Slam) initialised)) = Slam \<and>
   trackingMode (step (InitSettled True)
      (step (ImportSettled True) (step (SetARTrackingMode Slam) initialised))) = Hybrid"
  by (simp add: step_def handle_def setTrackingMode_def initVisualOdometry_start_def
        initVisualOdometry_imported_def initVisualOdometry_inited_def
        initialised_def constructed_def Let_def)

text \<open>
  Claim C3, amended. A mode request sets the mode to the requested one. The settling of
  the promises of \<^verbatim>\<open>initVisualOdometry\<close> sets it as well: a rejected import and a
  rejected \<^verbatim>\<open>init\<close> set it to \<^verbatim>\<open>sensor\<close>, a fulfilled \<^verbatim>\<open>init\<close> sets it to
  \<^verbatim>\<open>hybrid\<close>. Every other event leaves the mode as it is.
\<close>

theorem tracking_mode_transitions:
  "trackingMode (step (SetARTrackingMode m) s) = m \<and>
   (importsPending s \<noteq> 0 \<longrightarrow> trackingMode (step (ImportSettled False) s) = Sensor) \<and>
   (initsPending s \<noteq> 0 \<longrightarrow> trackingMode (step (InitSettled False) s) = Sensor) \<and>
   (initsPending s \<noteq> 0 \<and> visualOdometry s \<noteq> None \<longrightarrow>
      trackingMode (step (InitSettled True) s) = Hybrid) \<and>
   ((\<forall>m. ev \<noteq> SetARTrackingMode m) \<and> ev \<noteq> ImportSettled False \<and>
    (\<forall>ok. ev \<noteq> InitSettled ok) \<longrightarrow> trackingMode (step ev s) = trackingMode s)"
proof -
  have a: "trackingMode (step (SetARTrackingMode m) s) = m"
    by (simp add: step_def handle_def setTrackingMode_def initVisualOdometry_start_def Let_def)
  have b: "importsPending s \<noteq> 0 \<longrightarrow> trackingMode (step (ImportSettled False) s) = Sensor"
    by (simp add: step_def handle_def initVisualOdometry_imported_def Let_def)
  have c: "initsPending s \<noteq> 0 \<longrightarrow> trackingMode (step (InitSettled False) s) = Sensor"
    by (simp add: step_def handle_def initVisualOdometry_inited_def Let_def)
  have d: "initsPending s \<noteq> 0 \<and> visualOdometry s \<noteq> None \<longrightarrow>
      trackingMode (step (InitSettled True) s) = Hybrid"
    by (auto simp add: step_def handle_def initVisualOdometry_inited_def Let_def
          split: option.splits)
  show ?thesis using a b c d other_events_keep_mode by blast
qed

lemma init_pending_fields:
  "importsPending init_pending = 1" "initsPending init_pending = 1"
  "visualOdometry init_pending = Some \<lparr> vo_initialized = False, vo_camera_size = None \<rparr>"
  "trackingMode init_pending = Hybrid"
  by (simp_all add: init_pending_def step_def handle_def setTrackingMode_def initVisualOdometry_start_def
        initVisualOdometry_imported_def initialised_def constructed_def Let_def)

theorem tracking_mode_transitions_witness:
  "importsPending init_pending \<noteq> 0 \<and> initsPending init_pending \<noteq> 0 \<and>
   visualOdometry init_pending \<noteq> None \<and> trackingMode init_pending = Hybrid \<and>
   trackingMode (step (SetARTrackingMode Slam) init_pending) = Slam \<and>
   trackingMode (step (ImportSettled False) init_pending) = Sensor \<and>
   trackingMode (step (InitSettled False) init_pending) = Sensor \<and>
   trackingMode (step (InitSettled True) (step (SetARTrackingMode Slam) init_pending)) = Hybrid \<and>
   trackingMode (step (AnimationFrame (Some tracked_frame)) init_pending) = Hybrid \<and>
   trackingMode (step ResetARPose init_pending) = Hybrid"
  using tracking_mode_transitions [of Slam init_pending "AnimationFrame (Some tracked_frame)"]
    tracking_mode_transitions [of Slam init_pending ResetARPose]
    tracking_mode_transitions [of Slam "step (SetARTrackingMode Slam) init_pending" ResetARPose]
  by (simp add: init_pending_fields step_def handle_def setTrackingMode_def)

section \<open>Pinch and wheel scaling\<close>

lemma length_two: "length xs = 2 \<Longrightarrow> \<exists>a b. xs = [a, b]"
  by (auto simp: length_Suc_conv numeral_2_eq_2)

lemma length_one: "length xs = 1 \<Longrightarrow> \<exists>a. xs = [a]"
  by (auto simp: length_Suc_conv)

lemma touchstart_pinch:
  "hudCube s = Some m \<Longrightarrow>
   touchstart [p0, p1] s =
     s \<lparr> gesture := (gesture s) \<lparr> isDragging := False, isPinching := True,
            pinchStartDist := getTouchDistance p0 p1, pinchStartScale := hudCubeBaseScale s \<rparr> \<rparr>"
  by (simp add: touchstart_def)

lemma touchmove_pinch:
  assumes "hudCube s = Some m" and "isPinching (gesture s)" and "pinchStartDist (gesture s) \<noteq> 0"
  shows "touchmove [q0, q1] s =
     Inr (s \<lparr> hudCubeBaseScale :=
                max (3/10) (min 20 (pinchStartScale (gesture s) *
                  (getTouchDistance q0 q1 / pinchStartDist (gesture s)))),
              hudCube := Some (m
                \<lparr> scale_x := max (3/10) (min 20 (pinchStartScale (gesture s) *
                     (getTouchDistance q0 q1 / pinchStartDist (gesture s)))),
                  scale_y := max (3/10) (min 20 (pinchStartScale (gesture s) *
                     (getTouchDistance q0 q1 / pinchStartDist (gesture s)))),
                  scale_z := max (3/10) (min 20 (pinchStartScale (gesture s) *
                     (getTouchDistance q0 q1 / pinchStartDist (gesture s)))) \<rparr>) \<rparr>)"
  using assms by (simp add: touchmove_def Let_def)

lemma pinch_moves_keep:
  assumes "\<forall>mv \<in> set moves. length mv = 2"
    and "hudCube s \<noteq> None" and "isPinching (gesture s)" and "pinchStartDist (gesture s) \<noteq> 0"
  shows "gesture (run (map TouchMove moves) s) = gesture s \<and>
         hudCube (run (map TouchMove moves) s) \<noteq> None"
  using assms
proof (induction moves arbitrary: s)
  case Nil
  then show ?case by simp
next
  case (Cons mv moves)
  from Cons.prems(1) obtain q0 q1 where mv: "mv = [q0, q1]"
    using length_two [of mv] by auto
  from Cons.prems(2) obtain m where m: "hudCube s = Some m" by auto
  have st: "gesture (step (TouchMove mv) s) = gesture s \<and> hudCube (step (TouchMove mv) s) \<noteq> None"
    using touchmove_pinch [OF m Cons.prems(3) Cons.prems(4), of q0 q1]
    by (simp add: step_def handle_def mv)
  have "gesture (run (map TouchMove moves) (step (TouchMove mv) s)) = gesture (step (TouchMove mv) s) \<and>
        hudCube (run (map TouchMove moves) (step (TouchMove mv) s)) \<noteq> None"
    by (rule Cons.IH) (use Cons.prems st in auto)
  then show ?case using st by simp
qed

lemma run_append: "run (xs @ ys) s = run ys (run xs s)"
  by (induction xs arbitrary: s) simp_all

lemma getTouchDistance_horizontal:
  "getTouchDistance (touch_at x0 y) (touch_at x1 y) = \<bar>x0 - x1\<bar>"
  by (simp add: getTouchDistance_def touch_at_def Let_def)

text \<open>
  Claim C5. A pinch on an existing overlay starts with two touch points at distance
  \<open>d0 > 0\<close>; the overlay's scale \<open>s0\<close> at that moment is the baseline. After any
  number of two-point moves, the last one at distance \<open>d\<close>, the stored scale and the
  three components of the mesh's scale are \<open>s0 * (d / d0)\<close> clamped to \<open>[0.3, 20]\<close>;
  in particular the result is 20 when the product exceeds 20. A wheel event multiplies
  the scale by 0.9 or 1.1 and clamps it to \<open>[0.3, 5]\<close>.
\<close>

theorem pinch_and_wheel_scale:
  assumes "hudCube s = Some m" and "0 < getTouchDistance p0 p1"
    and "\<forall>mv \<in> set moves. length mv = 2"
  shows "hudCubeBaseScale (run (map TouchMove (moves @ [[q0, q1]])) (touchstart [p0, p1] s)) =
           max (3/10) (min 20 (hudCubeBaseScale s *
              (getTouchDistance q0 q1 / getTouchDistance p0 p1))) \<and>
         map_option (\<lambda>h. (scale_x h, scale_y h, scale_z h))
             (hudCube (run (map TouchMove (moves @ [[q0, q1]])) (touchstart [p0, p1] s))) =
           Some (max (3/10) (min 20 (hudCubeBaseScale s *
                   (getTouchDistance q0 q1 / getTouchDistance p0 p1))),
                 max (3/10) (min 20 (hudCubeBaseScale s *
                   (getTouchDistance q0 q1 / getTouchDistance p0 p1))),
                 max (3/10) (min 20 (hudCubeBaseScale s *
                   (getTouchDistance q0 q1 / getTouchDistance p0 p1)))) \<and>
         (20 < hudCubeBaseScale s * (getTouchDistance q0 q1 / getTouchDistance p0 p1) \<longrightarrow>
            hudCubeBaseScale (run (map TouchMove (moves @ [[q0, q1]])) (touchstart [p0, p1] s))
              = 20) \<and>
         hudCubeBaseScale (wheel deltaY s) =
           max (3/10) (min 5 (hudCubeBaseScale s * (if deltaY > 0 then 9/10 else 11/10))) \<and>
         map_option (\<lambda>h. (scale_x h, scale_y h, scale_z h)) (hudCube (wheel deltaY s)) =
           Some (hudCubeBaseScale (wheel deltaY s), hudCubeBaseScale (wheel deltaY s),
                 hudCubeBaseScale (wheel deltaY s)) \<and>
         3/10 \<le> hudCubeBaseScale (wheel deltaY s) \<and> hudCubeBaseScale (wheel deltaY s) \<le> 5"
proof -
  let ?s1 = "touchstart [p0, p1] s"
  let ?s2 = "run (map TouchMove moves) ?s1"
  let ?r = "hudCubeBaseScale s * (getTouchDistance q0 q1 / getTouchDistance p0 p1)"
  have g1: "gesture ?s1 = (gesture s) \<lparr> isDragging := False, isPinching := True,
            pinchStartDist := getTouchDistance p0 p1, pinchStartScale := hudCubeBaseScale s \<rparr>"
    and h1: "hudCube ?s1 = Some m"
    using assms(1) by (simp_all add: touchstart_pinch)
  have keep: "gesture ?s2 = gesture ?s1 \<and> hudCube ?s2 \<noteq> None"
    by (rule pinch_moves_keep) (use assms g1 h1 in auto)
  then obtain m2 where m2: "hudCube ?s2 = Some m2" by auto
  have p2: "isPinching (gesture ?s2)" and d2: "pinchStartDist (gesture ?s2) \<noteq> 0"
    and sc: "pinchStartScale (gesture ?s2) = hudCubeBaseScale s"
    and dd: "pinchStartDist (gesture ?s2) = getTouchDistance p0 p1"
    using keep g1 assms(2) by simp_all
  have fin: "run (map TouchMove (moves @ [[q0, q1]])) ?s1 = step (TouchMove [q0, q1]) ?s2"
    by (simp add: run_append)
  define ns where "ns = max (3/10) (min 20 ?r)"
  have tm: "touchmove [q0, q1] ?s2 =
      Inr (?s2 \<lparr> hudCubeBaseScale := ns,
                  hudCube := Some (m2 \<lparr> scale_x := ns, scale_y := ns, scale_z := ns \<rparr>) \<rparr>)"
    using touchmove_pinch [OF m2 p2 d2, of q0 q1] unfolding sc dd ns_def .
  have A: "hudCubeBaseScale (run (map TouchMove (moves @ [[q0, q1]])) ?s1) = ns"
    unfolding fin by (simp add: step_def handle_def tm)
  have B: "map_option (\<lambda>h. (scale_x h, scale_y h, scale_z h))
      (hudCube (run (map TouchMove (moves @ [[q0, q1]])) ?s1)) = Some (ns, ns, ns)"
    unfolding fin by (simp add: step_def handle_def tm)
  have C: "20 < ?r \<longrightarrow>
      hudCubeBaseScale (run (map TouchMove (moves @ [[q0, q1]])) ?s1) = 20"
    unfolding A by (simp add: ns_def)
  have W1: "hudCubeBaseScale (wheel deltaY s) =
      max (3/10) (min 5 (hudCubeBaseScale s * (if deltaY > 0 then 9/10 else 11/10)))"
    using assms(1) by (simp add: wheel_def Let_def)
  have W2: "map_option (\<lambda>h. (scale_x h, scale_y h, scale_z h)) (hudCube (wheel deltaY s)) =
      Some (hudCubeBaseScale (wheel deltaY s), hudCubeBaseScale (wheel deltaY s),
            hudCubeBaseScale (wheel deltaY s))"
    using assms(1) by (simp add: wheel_def Let_def)
  have R1: "3/10 \<le> hudCubeBaseScale (wheel deltaY s)"
    unfolding W1 by simp
  have R2: "hudCubeBaseScale (wheel deltaY s) \<le> 5"
    unfolding W1 by simp
  from A [unfolded ns_def] B [unfolded ns_def] C W1 W2 R1 R2 show ?thesis by blast
qed

theorem pinch_and_wheel_scale_witness:
  "hudCube with_overlay \<noteq> None \<and> hudCubeBaseScale with_overlay = 1 \<and>
   getTouchDistance (touch_at 100 200) (touch_at 200 200) = 100 \<and>
   getTouchDistance (touch_at 100 200) (touch_at 250 200) = 150 \<and>
   hudCubeBaseScale (run (map TouchMove
        ([[touch_at 100 200, touch_at 220 200]] @ [[touch_at 100 200, touch_at 250 200]]))
      (touchstart [touch_at 100 200, touch_at 200 200] with_overlay)) = 3/2 \<and>
   hudCubeBaseScale (run (map TouchMove
        ([[touch_at 100 200, touch_at 220 200]] @ [[touch_at 100 200, touch_at 3100 200]]))
      (touchstart [touch_at 100 200, touch_at 200 200] with_overlay)) = 20 \<and>
   hudCubeBaseScale (wheel 120 with_overlay) = 9/10"
proof -
  have d: "0 < getTouchDistance (touch_at 100 200) (touch_at 200 200)"
    by (simp add: getTouchDistance_horizontal)
  have l: "\<forall>mv \<in> set [[touch_at 100 200, touch_at 220 200]]. length mv = 2" by simp
  show ?thesis
    using
      pinch_and_wheel_scale [OF with_overlay_fields(4) d l, of "touch_at 100 200" "touch_at 250 200" 120]
      pinch_and_wheel_scale [OF with_overlay_fields(4) d l, of "touch_at 100 200" "touch_at 3100 200" 120]
    by (simp add: getTouchDistance_horizontal with_overlay_fields)
qed

section \<open>Dragging\<close>

lemma touchstart_drag:
  "hudCube s = Some m \<Longrightarrow>
   touchstart [p] s =
     s \<lparr> gesture := (gesture s) \<lparr> isDragging := True, isPinching := False,
            dragStartX := clientX p, dragStartY := clientY p,
            objStartX := position_x m, objStartY := position_y m \<rparr> \<rparr>"
  by (simp add: touchstart_def)

lemma screenPixelToLocal_value:
  assumes "camera s = Some c" and "innerHeight s \<noteq> 0" and "cos (degToRad (fov c) / 2) \<noteq> 0"
  shows "screenPixelToLocal s = Inr (2 * (3/2) * tan (degToRad (fov c) / 2) / innerHeight s)"
  using assms by (simp add: screenPixelToLocal_def Let_def)

lemma touchmove_drag:
  assumes "hudCube s = Some m" and "isDragging (gesture s)" and "screenPixelToLocal s = Inr k"
  shows "touchmove [q] s =
     Inr (s \<lparr> hudCube := Some (m
            \<lparr> position_x := objStartX (gesture s) + (clientX q - dragStartX (gesture s)) * k,
              position_y := objStartY (gesture s) - (clientY q - dragStartY (gesture s)) * k \<rparr>) \<rparr>)"
  using assms by (simp add: touchmove_def Let_def)

lemma screenPixelToLocal_cong:
  "camera s' = camera s \<Longrightarrow> innerHeight s' = innerHeight s \<Longrightarrow>
   screenPixelToLocal s' = screenPixelToLocal s"
  by (simp add: screenPixelToLocal_def Let_def split: option.splits)

lemma drag_moves_keep:
  assumes "\<forall>mv \<in> set moves. length mv = 1"
    and "hudCube s = Some m" and "isDragging (gesture s)" and "screenPixelToLocal s = Inr k"
  shows "gesture (run (map TouchMove moves) s) = gesture s \<and>
         camera (run (map TouchMove moves) s) = camera s \<and>
         innerHeight (run (map TouchMove moves) s) = innerHeight s \<and>
         map_option (\<lambda>h. h \<lparr> position_x := 0, position_y := 0 \<rparr>)
             (hudCube (run (map TouchMove moves) s)) =
           Some (m \<lparr> position_x := 0, position_y := 0 \<rparr>)"
  using assms
proof (induction moves arbitrary: s m)
  case Nil
  then show ?case by simp
next
  case (Cons mv moves)
  from Cons.prems(1) obtain q where mv: "mv = [q]"
    using length_one [of mv] by auto
  let ?s1 = "step (TouchMove mv) s"
  let ?m1 = "m \<lparr> position_x := objStartX (gesture s) + (clientX q - dragStartX (gesture s)) * k,
              position_y := objStartY (gesture s) - (clientY q - dragStartY (gesture s)) * k \<rparr>"
  have st: "gesture ?s1 = gesture s" "camera ?s1 = camera s" "innerHeight ?s1 = innerHeight s"
    "hudCube ?s1 = Some ?m1"
    using touchmove_drag [OF Cons.prems(2) Cons.prems(3) Cons.prems(4), of q]
    by (simp_all add: step_def handle_def mv)
  have k1: "screenPixelToLocal ?s1 = Inr k"
    using screenPixelToLocal_cong [OF st(2) st(3)] Cons.prems(4) by simp
  have "gesture (run (map TouchMove moves) ?s1) = gesture ?s1 \<and>
         camera (run (map TouchMove moves) ?s1) = camera ?s1 \<and>
         innerHeight (run (map TouchMove moves) ?s1) = innerHeight ?s1 \<and>
         map_option (\<lambda>h. h \<lparr> position_x := 0, position_y := 0 \<rparr>)
             (hudCube (run (map TouchMove moves) ?s1)) =
           Some (?m1 \<lparr> position_x := 0, position_y := 0 \<rparr>)"
    by (rule Cons.IH) (use Cons.prems st k1 in auto)
  then show ?case using st by simp
qed

lemma mouse_drag:
  assumes "hudCube s = Some m" and "screenPixelToLocal s = Inr k"
  shows "\<exists>sd. mousedown x0 y0 s = Inr sd \<and>
           mousemove x1 y1 sd =
             Inr (sd \<lparr> hudCube := Some (m \<lparr> position_x := position_x m + (x1 - x0) * k,
                                               position_y := position_y m - (y1 - y0) * k \<rparr>) \<rparr>)"
proof -
  let ?sd = "s \<lparr> mouseDown := True,
                 gesture := (gesture s) \<lparr> dragStartX := x0, dragStartY := y0,
                   objStartX := position_x m, objStartY := position_y m \<rparr> \<rparr>"
  have d: "mousedown x0 y0 s = Inr ?sd"
    using assms(1) by (simp add: mousedown_def)
  have "screenPixelToLocal ?sd = Inr k"
    using screenPixelToLocal_cong [of ?sd s] assms(2) by simp
  then have "mousemove x1 y1 ?sd =
      Inr (?sd \<lparr> hudCube := Some (m \<lparr> position_x := position_x m + (x1 - x0) * k,
                                        position_y := position_y m - (y1 - y0) * k \<rparr>) \<rparr>)"
    using assms(1) by (simp add: mousemove_def Let_def)
  then show ?thesis using d by blast
qed

lemma cos_half_fov_70: "cos (degToRad 70 / 2) \<noteq> 0"
proof -
  have "0 < cos (degToRad 70 / 2)"
    by (rule cos_gt_zero_pi) (use pi_gt_zero in \<open>simp_all add: degToRad_def\<close>)
  then show ?thesis by simp
qed

text \<open>
  Claim C6. A drag on an existing overlay starts with one touch point \<open>p\<close>, which
  records the point and the overlay's local position. After any number of one-point
  moves, the last one at \<open>q\<close>, the overlay's local position is the recorded one plus
  \<open>k\<close> times the horizontal screen delta and minus \<open>k\<close> times the vertical one,
  where \<open>k = 2 * 1.5 * tan (fov / 2) / innerHeight\<close> (the field of view converted to
  radians) is what \<^verbatim>\<open>screenPixelToLocal\<close> returns; the depth is unchanged. The mouse
  path (\<^verbatim>\<open>mousedown\<close>, \<^verbatim>\<open>mousemove\<close>) computes the same position.
\<close>

theorem drag_position:
  assumes "hudCube s = Some m" and "camera s = Some c"
    and "innerHeight s \<noteq> 0" and "cos (degToRad (fov c) / 2) \<noteq> 0"
    and "\<forall>mv \<in> set moves. length mv = 1"
  shows "screenPixelToLocal s = Inr (2 * (3/2) * tan (degToRad (fov c) / 2) / innerHeight s) \<and>
         hudCube (run (map TouchMove (moves @ [[q]])) (touchstart [p] s)) =
           Some (m \<lparr> position_x := position_x m + (clientX q - clientX p) *
                                       (2 * (3/2) * tan (degToRad (fov c) / 2) / innerHeight s),
                      position_y := position_y m - (clientY q - clientY p) *
                                       (2 * (3/2) * tan (degToRad (fov c) / 2) / innerHeight s) \<rparr>) \<and>
         (\<exists>sd. mousedown (clientX p) (clientY p) s = Inr sd \<and>
            mousemove (clientX q) (clientY q) sd =
              Inr (sd \<lparr> hudCube := Some (m
                \<lparr> position_x := position_x m + (clientX q - clientX p) *
                                  (2 * (3/2) * tan (degToRad (fov c) / 2) / innerHeight s),
                  position_y := position_y m - (clientY q - clientY p) *
                                  (2 * (3/2) * tan (degToRad (fov c) / 2) / innerHeight s) \<rparr>) \<rparr>))"
proof -
  let ?k = "2 * (3/2) * tan (degToRad (fov c) / 2) / innerHeight s"
  let ?s1 = "touchstart [p] s"
  let ?s2 = "run (map TouchMove moves) ?s1"
  have k: "screenPixelToLocal s = Inr ?k"
    by (rule screenPixelToLocal_value) (use assms in auto)
  have g1: "gesture ?s1 = (gesture s) \<lparr> isDragging := True, isPinching := False,
            dragStartX := clientX p, dragStartY := clientY p,
            objStartX := position_x m, objStartY := position_y m \<rparr>"
    and h1: "hudCube ?s1 = Some m" and c1: "camera ?s1 = camera s"
    and i1: "innerHeight ?s1 = innerHeight s"
    using assms(1) by (simp_all add: touchstart_drag)
  have k1: "screenPixelToLocal ?s1 = Inr ?k"
    using screenPixelToLocal_cong [OF c1 i1] k by simp
  have d1: "isDragging (gesture ?s1)" using g1 by simp
  have keep: "gesture ?s2 = gesture ?s1 \<and> camera ?s2 = camera ?s1 \<and>
         innerHeight ?s2 = innerHeight ?s1 \<and>
         map_option (\<lambda>h. h \<lparr> position_x := 0, position_y := 0 \<rparr>) (hudCube ?s2) =
           Some (m \<lparr> position_x := 0, position_y := 0 \<rparr>)"
    by (rule drag_moves_keep [OF assms(5) h1 d1 k1])
  then obtain m2 where m2: "hudCube ?s2 = Some m2"
    and eq: "m2 \<lparr> position_x := 0, position_y := 0 \<rparr> = m \<lparr> position_x := 0, position_y := 0 \<rparr>"
    by auto
  have k2: "screenPixelToLocal ?s2 = Inr ?k"
    using screenPixelToLocal_cong [of ?s2 ?s1] keep k1 by simp
  have d2: "isDragging (gesture ?s2)" using keep d1 by simp
  have fin: "run (map TouchMove (moves @ [[q]])) ?s1 = step (TouchMove [q]) ?s2"
    by (simp add: run_append)
  have "hudCube (step (TouchMove [q]) ?s2) =
      Some (m2 \<lparr> position_x := position_x m + (clientX q - clientX p) * ?k,
                 position_y := position_y m - (clientY q - clientY p) * ?k \<rparr>)"
    using touchmove_drag [OF m2 d2 k2, of q] keep g1 by (simp add: step_def handle_def)
  moreover have "m2 \<lparr> position_x := x, position_y := y \<rparr> = m \<lparr> position_x := x, position_y := y \<rparr>"
    for x y
  proof -
    have "(m2 \<lparr> position_x := 0, position_y := 0 \<rparr>) \<lparr> position_x := x, position_y := y \<rparr> =
          (m \<lparr> position_x := 0, position_y := 0 \<rparr>) \<lparr> position_x := x, position_y := y \<rparr>"
      using eq by simp
    then show ?thesis by simp
  qed
  ultimately have T: "hudCube (run (map TouchMove (moves @ [[q]])) ?s1) =
      Some (m \<lparr> position_x := position_x m + (clientX q - clientX p) * ?k,
                position_y := position_y m - (clientY q - clientY p) * ?k \<rparr>)"
    unfolding fin by simp
  from k T mouse_drag [OF assms(1) k, of "clientX p" "clientY p" "clientX q" "clientY q"]
  show ?thesis by blast
qed

theorem drag_position_witness:
  "hudCube with_overlay \<noteq> None \<and> innerHeight with_overlay \<noteq> 0 \<and>
   cos (degToRad 70 / 2) \<noteq> 0 \<and>
   screenPixelToLocal with_overlay = Inr (2 * (3/2) * tan (degToRad 70 / 2) / 800) \<and>
   map_option (\<lambda>h. (position_x h, position_y h, position_z h))
     (hudCube (run (map TouchMove ([[touch_at 110 205]] @ [[touch_at 130 180]]))
        (touchstart [touch_at 100 200] with_overlay))) =
     Some (30 * (2 * (3/2) * tan (degToRad 70 / 2) / 800),
           20 * (2 * (3/2) * tan (degToRad 70 / 2) / 800), - (3/2))"
proof -
  have f: "fov \<lparr> fov = 70, aspect = 1/2, children = [4], cam_pose = PoseInitial \<rparr> = 70"
    by simp
  have h: "innerHeight with_overlay \<noteq> 0" by (simp add: with_overlay_fields)
  have c: "cos (degToRad (fov \<lparr> fov = 70, aspect = 1/2, children = [4],
                            cam_pose = PoseInitial \<rparr>) / 2) \<noteq> 0"
    unfolding f by (rule cos_half_fov_70)
  have l: "\<forall>mv \<in> set [[touch_at 110 205]]. length mv = 1" by simp
  show ?thesis
    using drag_position [OF with_overlay_fields(4) with_overlay_fields(3) h c l,
        of "touch_at 130 180" "touch_at 100 200"] cos_half_fov_70
    by (simp add: with_overlay_fields touch_at_def)
qed

section \<open>Chroma-key alpha\<close>

lemma with_overlay_placed: "placeCube None initialised = Inr with_overlay"
  by (simp add: with_overlay_def placeCube_def cleanupHud_def initialised_def constructed_def Let_def)

lemma fragment_alpha:
  assumes "0 \<le> similarity u" and "0 < smoothness u"
    and "tex (fst uv, cropBottom u + snd uv * (1 - cropTop u - cropBottom u)) = (r, g, b, a)"
  shows "((r, g, b) = keyColor u \<longrightarrow> fragmentShader u tex uv = (r, g, b, 0)) \<and>
         (similarity u + smoothness u \<le> chromaDist (r, g, b) (keyColor u) \<longrightarrow>
            fragmentShader u tex uv = (r, g, b, a))"
proof (intro conjI impI)
  assume key: "(r, g, b) = keyColor u"
  have "chromaDist (r, g, b) (keyColor u) = 0"
    using key by (simp add: chromaDist_def Let_def)
  moreover have "smoothstep (similarity u) (similarity u + smoothness u) 0 = 0"
  proof -
    have "(0 - similarity u) / (similarity u + smoothness u - similarity u) \<le> 0"
      using assms(1,2) by (simp add: divide_nonpos_pos)
    then show ?thesis by (simp add: smoothstep_def glsl_clamp_def Let_def max_def min_def)
  qed
  ultimately show "fragmentShader u tex uv = (r, g, b, 0)"
    using assms(3) by (simp add: fragmentShader_def Let_def)
next
  assume far: "similarity u + smoothness u \<le> chromaDist (r, g, b) (keyColor u)"
  have "1 \<le> (chromaDist (r, g, b) (keyColor u) - similarity u) /
              (similarity u + smoothness u - similarity u)"
    using far assms(2) by (simp add: le_divide_eq)
  then have "smoothstep (similarity u) (similarity u + smoothness u)
               (chromaDist (r, g, b) (keyColor u)) = 1"
    by (simp add: smoothstep_def glsl_clamp_def Let_def max_def min_def)
  then show "fragmentShader u tex uv = (r, g, b, a)"
    using assms(3) by (simp add: fragmentShader_def Let_def)
qed

lemma placeCube_uniforms:
  assumes "isReady s" and "placeCube src s = Inr s'" and "hudCube s' = Some m"
  shows "keyColor (mesh_uniforms m) = (0, 1, 0) \<and> similarity (mesh_uniforms m) = 2/5 \<and>
         smoothness (mesh_uniforms m) = 1/10"
  using assms
  by (auto simp: placeCube_def Let_def split: option.splits sum.splits if_splits)

lemma chromaDist_red_green: "1/2 \<le> chromaDist (1, 0, 0) (0, 1, 0)"
  unfolding chromaDist_def Let_def
  by (rule real_le_rsqrt) (simp add: RGBtoUV_def power2_eq_square)

text \<open>
  Claim C8. With a similarity that is not negative and a positive smoothness (the range
  in which GLSL defines \<^verbatim>\<open>smoothstep\<close> and the key colour itself lies below the
  threshold), a texel whose colour equals the key colour comes out with alpha 0, and a
  texel whose chroma distance from the key colour is at least \<open>similarity + smoothness\<close>
  comes out with its own alpha; the colour is never changed. Every material that
  \<^verbatim>\<open>placeCube\<close> builds has key colour pure green, similarity 0.4 and smoothness 0.1,
  which are in that range, and nothing in the program changes these three uniforms.
\<close>

theorem chroma_key_alpha:
  "(0 \<le> similarity u \<and> 0 < smoothness u \<and>
    tex (fst uv, cropBottom u + snd uv * (1 - cropTop u - cropBottom u)) = (r, g, b, a) \<longrightarrow>
      ((r, g, b) = keyColor u \<longrightarrow> fragmentShader u tex uv = (r, g, b, 0)) \<and>
      (similarity u + smoothness u \<le> chromaDist (r, g, b) (keyColor u) \<longrightarrow>
         fragmentShader u tex uv = (r, g, b, a))) \<and>
   (isReady s \<and> placeCube src s = Inr s' \<and> hudCube s' = Some m \<longrightarrow>
      keyColor (mesh_uniforms m) = (0, 1, 0) \<and> similarity (mesh_uniforms m) = 2/5 \<and>
      smoothness (mesh_uniforms m) = 1/10 \<and>
      0 \<le> similarity (mesh_uniforms m) \<and> 0 < smoothness (mesh_uniforms m))"
proof (intro conjI impI)
  assume "isReady s \<and> placeCube src s = Inr s' \<and> hudCube s' = Some m"
  then have u: "keyColor (mesh_uniforms m) = (0, 1, 0) \<and> similarity (mesh_uniforms m) = 2/5 \<and>
         smoothness (mesh_uniforms m) = 1/10"
    using placeCube_uniforms by blast
  then show "keyColor (mesh_uniforms m) = (0, 1, 0)" "similarity (mesh_uniforms m) = 2/5"
    "smoothness (mesh_uniforms m) = 1/10" "0 \<le> similarity (mesh_uniforms m)"
    "0 < smoothness (mesh_uniforms m)"
    by simp_all
qed (use fragment_alpha in blast)+

theorem chroma_key_alpha_witness:
  "0 \<le> similarity green_key \<and> 0 < smoothness green_key \<and>
   isReady initialised \<and> placeCube None initialised = Inr with_overlay \<and>
   map_option mesh_uniforms (hudCube with_overlay) = Some green_key \<and>
   fragmentShader green_key (\<lambda>uv. (0, 1, 0, 1)) (1/2, 1/2) = (0, 1, 0, 0) \<and>
   similarity green_key + smoothness green_key \<le> chromaDist (1, 0, 0) (keyColor green_key) \<and>
   fragmentShader green_key (\<lambda>uv. (1, 0, 0, 4/5)) (1/2, 1/2) = (1, 0, 0, 4/5)"
  using
    chroma_key_alpha [of green_key "\<lambda>uv. (0, 1, 0, 1)" "(1/2, 1/2)" 0 1 0 1 initialised None
       with_overlay "\<lparr>mesh_id = 4, geometry_id = 3, material_id = 2,
       plane_width = 1 / 2, plane_height = 1 / 2,
       mesh_uniforms = \<lparr>keyColor = (0, 1, 0), similarity = 2 / 5, smoothness = 1 / 10,
                         cropTop = 0, cropBottom = 0\<rparr>,
       position_x = 0, position_y = 0, position_z = - (3 / 2),
       scale_x = 1, scale_y = 1, scale_z = 1\<rparr>"]
    chroma_key_alpha [of green_key "\<lambda>uv. (1, 0, 0, 4/5)" "(1/2, 1/2)" 1 0 0 "4/5" initialised None
       with_overlay "\<lparr>mesh_id = 4, geometry_id = 3, material_id = 2,
       plane_width = 1 / 2, plane_height = 1 / 2,
       mesh_uniforms = \<lparr>keyColor = (0, 1, 0), similarity = 2 / 5, smoothness = 1 / 10,
                         cropTop = 0, cropBottom = 0\<rparr>,
       position_x = 0, position_y = 0, position_z = - (3 / 2),
       scale_x = 1, scale_y = 1, scale_z = 1\<rparr>"]
    chromaDist_red_green with_overlay_placed
  by (simp add: green_key_def with_overlay_fields initialised_def)

section \<open>Double tap\<close>

text \<open>
  One-point moves change nothing but the overlay's position; a tap (a lift within 10
  pixels of the touch start, in a drag) places the overlay if the previous tap was less
  than 300 ms ago, and is recorded as the last tap in either case.
\<close>

lemma frame_fields:
  assumes "s' \<lparr> hudCube := None \<rparr> = s \<lparr> hudCube := None \<rparr>"
  shows "isReady s' = isReady s" "camera s' = camera s" "gesture s' = gesture s"
    "lastTap s' = lastTap s" "nextId s' = nextId s" "effects s' = effects s"
proof -
  have "isReady (s' \<lparr> hudCube := None \<rparr>) = isReady (s \<lparr> hudCube := None \<rparr>)"
    "camera (s' \<lparr> hudCube := None \<rparr>) = camera (s \<lparr> hudCube := None \<rparr>)"
    "gesture (s' \<lparr> hudCube := None \<rparr>) = gesture (s \<lparr> hudCube := None \<rparr>)"
    "lastTap (s' \<lparr> hudCube := None \<rparr>) = lastTap (s \<lparr> hudCube := None \<rparr>)"
    "nextId (s' \<lparr> hudCube := None \<rparr>) = nextId (s \<lparr> hudCube := None \<rparr>)"
    "effects (s' \<lparr> hudCube := None \<rparr>) = effects (s \<lparr> hudCube := None \<rparr>)"
    using assms by simp_all
  then show "isReady s' = isReady s" "camera s' = camera s" "gesture s' = gesture s"
    "lastTap s' = lastTap s" "nextId s' = nextId s" "effects s' = effects s"
    by simp_all
qed

lemma step_touchmove_one_frame:
  "(step (TouchMove [q]) s) \<lparr> hudCube := None \<rparr> = s \<lparr> hudCube := None \<rparr> \<and>
   map_option mesh_id (hudCube (step (TouchMove [q]) s)) = map_option mesh_id (hudCube s)"
  by (auto simp: step_def handle_def touchmove_def Let_def split: option.splits sum.splits)

lemma one_point_moves_frame:
  assumes "\<forall>mv \<in> set moves. length mv = 1"
  shows "(run (map TouchMove moves) s) \<lparr> hudCube := None \<rparr> = s \<lparr> hudCube := None \<rparr> \<and>
         map_option mesh_id (hudCube (run (map TouchMove moves) s)) = map_option mesh_id (hudCube s)"
  using assms
proof (induction moves arbitrary: s)
  case Nil
  then show ?case by simp
next
  case (Cons mv moves)
  from Cons.prems obtain q where mv: "mv = [q]"
    using length_one [of mv] by auto
  have "(run (map TouchMove moves) (step (TouchMove mv) s)) \<lparr> hudCube := None \<rparr> =
          (step (TouchMove mv) s) \<lparr> hudCube := None \<rparr> \<and>
        map_option mesh_id (hudCube (run (map TouchMove moves) (step (TouchMove mv) s))) =
          map_option mesh_id (hudCube (step (TouchMove mv) s))"
    by (rule Cons.IH) (use Cons.prems in auto)
  then show ?case using step_touchmove_one_frame [of q s] by (simp add: mv)
qed

lemma placeCube_ready:
  assumes "isReady x" and "camera x = Some c"
  shows "\<exists>sp. placeCube src x = Inr sp \<and> isReady sp \<and> camera sp \<noteq> None \<and>
           nextId sp = nextId x + 5 \<and>
           map_option mesh_id (hudCube sp) = Some (nextId x + 4) \<and>
           gesture sp = gesture x \<and> lastTap sp = lastTap x \<and>
           last (effects sp) = CameraAdd (nextId x + 4)"
  using assms
  by (cases src; cases "hudCube x"; cases "hudVideo x"; cases "hudVideoTexture x")
     (simp_all add: placeCube_def cleanupHud_def Let_def)

lemma touchend_tap:
  assumes "isDragging (gesture x)" and "\<not> isPinching (gesture x)"
    and "\<bar>clientX q - dragStartX (gesture x)\<bar> < 10"
    and "\<bar>clientY q - dragStartY (gesture x)\<bar> < 10"
  shows "touchend [] [q] now x =
     (case (if now - lastTap x < 300 then placeCube None x else Inr x) of
        Inl e \<Rightarrow> Inl e
      | Inr s1 \<Rightarrow> Inr (s1 \<lparr> lastTap := now,
                    gesture := (gesture s1) \<lparr> isDragging := False, isPinching := False \<rparr> \<rparr>))"
  using assms by (simp add: touchend_def Let_def split: sum.splits)

lemma single_touch_tap:
  assumes "isReady s" and "camera s = Some c" and "hudCube s = Some m"
    and "\<forall>mv \<in> set moves. length mv = 1"
    and "\<bar>clientX q - clientX p\<bar> < 10" and "\<bar>clientY q - clientY p\<bar> < 10"
  shows "\<exists>s1. single_touch p moves q now s = Inr s1 \<and> lastTap s1 = now \<and>
           isReady s1 \<and> camera s1 \<noteq> None \<and> hudCube s1 \<noteq> None \<and>
           (now - lastTap s < 300 \<longrightarrow>
              (\<exists>placed. placeCube None (run (map TouchMove moves) (touchstart [p] s)) = Inr placed \<and>
                 hudCube s1 = hudCube placed \<and> effects s1 = effects placed \<and>
                 nextId s1 = nextId s + 5 \<and>
                 map_option mesh_id (hudCube s1) = Some (nextId s + 4) \<and>
                 last (effects s1) = CameraAdd (nextId s + 4))) \<and>
           (300 \<le> now - lastTap s \<longrightarrow>
              effects s1 = effects s \<and> nextId s1 = nextId s \<and>
              map_option mesh_id (hudCube s1) = Some (mesh_id m))"
proof -
  let ?s0 = "touchstart [p] s"
  let ?x = "run (map TouchMove moves) ?s0"
  have s0: "?s0 = s \<lparr> gesture := (gesture s) \<lparr> isDragging := True, isPinching := False,
            dragStartX := clientX p, dragStartY := clientY p,
            objStartX := position_x m, objStartY := position_y m \<rparr> \<rparr>"
    using assms(3) by (simp add: touchstart_def)
  have fr: "?x \<lparr> hudCube := None \<rparr> = ?s0 \<lparr> hudCube := None \<rparr>"
    and ids: "map_option mesh_id (hudCube ?x) = map_option mesh_id (hudCube ?s0)"
    using one_point_moves_frame [OF assms(4), of ?s0] by simp_all
  note f = frame_fields [OF fr]
  have g: "gesture ?x = (gesture s) \<lparr> isDragging := True, isPinching := False,
            dragStartX := clientX p, dragStartY := clientY p,
            objStartX := position_x m, objStartY := position_y m \<rparr>"
    using f(3) s0 by simp
  have r: "isReady ?x" and c: "camera ?x = Some c" and lt: "lastTap ?x = lastTap s"
    and n: "nextId ?x = nextId s" and e: "effects ?x = effects s"
    using f s0 assms(1,2) by simp_all
  have idm: "map_option mesh_id (hudCube ?x) = Some (mesh_id m)"
    using ids s0 assms(3) by simp
  have te: "touchend [] [q] now ?x =
     (case (if now - lastTap ?x < 300 then placeCube None ?x else Inr ?x) of
        Inl e \<Rightarrow> Inl e
      | Inr s1 \<Rightarrow> Inr (s1 \<lparr> lastTap := now,
                    gesture := (gesture s1) \<lparr> isDragging := False, isPinching := False \<rparr> \<rparr>))"
    by (rule touchend_tap) (use g assms(5,6) in simp_all)
  show ?thesis
  proof (cases "now - lastTap s < 300")
    case True
    from placeCube_ready [OF r c, of None] obtain sp where sp: "placeCube None ?x = Inr sp"
      "isReady sp" "camera sp \<noteq> None" "nextId sp = nextId ?x + 5"
      "map_option mesh_id (hudCube sp) = Some (nextId ?x + 4)"
      "last (effects sp) = CameraAdd (nextId ?x + 4)"
      by blast
    have "single_touch p moves q now s =
        Inr (sp \<lparr> lastTap := now,
                  gesture := (gesture sp) \<lparr> isDragging := False, isPinching := False \<rparr> \<rparr>)"
      unfolding single_touch_def te using True sp(1) lt by simp
    then show ?thesis using True sp n by auto
  next
    case False
    have "single_touch p moves q now s =
        Inr (?x \<lparr> lastTap := now,
                  gesture := (gesture ?x) \<lparr> isDragging := False, isPinching := False \<rparr> \<rparr>)"
      unfolding single_touch_def te using False lt by simp
    then show ?thesis using False r c e n idm by auto
  qed
qed

text \<open>
  Claim C7, as stated, fails where no overlay exists (the first 500 ms after \<^verbatim>\<open>init\<close>,
  before the timer of line 112 has placed one): \<^verbatim>\<open>touchstart\<close> enters the drag state
  only for an existing overlay (line 353), so the two taps of the claim's example, 200 ms
  apart, are not counted and nothing is placed.
\<close>

theorem double_tap_without_overlay:
  "hudCube initialised = None \<and> effects initialised = [] \<and>
   single_touch (touch_at 100 100) [] (touch_at 103 102) 1000000 initialised = Inr initialised \<and>
   single_touch (touch_at 100 100) [] (touch_at 100 100) 1000200 initialised = Inr initialised"
  by (simp add: single_touch_def touchstart_def touchend_def initialised_def constructed_def)

text \<open>
  Claim C7, amended. While an overlay exists, a single-pointer touch sequence that ends
  less than 10 pixels from its start in both axes, followed by a second such sequence
  that ends less than 300 ms after the first one ended, calls \<^verbatim>\<open>placeCube\<close> at the
  end of the second sequence: the overlay is replaced by a new one. If the second
  sequence ends 300 ms or more after the first (500 ms, say), nothing is placed. A first
  tap that comes 300 ms or more after the previous one places nothing either.
\<close>

theorem double_tap_places_overlay:
  assumes "isReady s" and "camera s = Some c" and "hudCube s = Some m"
    and "\<forall>mv \<in> set moves1. length mv = 1" and "\<forall>mv \<in> set moves2. length mv = 1"
    and "\<bar>clientX q1 - clientX p1\<bar> < 10" and "\<bar>clientY q1 - clientY p1\<bar> < 10"
    and "\<bar>clientX q2 - clientX p2\<bar> < 10" and "\<bar>clientY q2 - clientY p2\<bar> < 10"
  shows "\<exists>s1. single_touch p1 moves1 q1 t1 s = Inr s1 \<and>
           (300 \<le> t1 - lastTap s \<longrightarrow>
              effects s1 = effects s \<and> nextId s1 = nextId s \<and>
              map_option mesh_id (hudCube s1) = Some (mesh_id m)) \<and>
           (t2 - t1 < 300 \<longrightarrow>
              (\<exists>placed s2.
                 placeCube None (run (map TouchMove moves2) (touchstart [p2] s1)) = Inr placed \<and>
                 single_touch p2 moves2 q2 t2 s1 = Inr s2 \<and>
                 hudCube s2 = hudCube placed \<and> effects s2 = effects placed \<and>
                 map_option mesh_id (hudCube s2) = Some (nextId s1 + 4) \<and>
                 last (effects s2) = CameraAdd (nextId s1 + 4))) \<and>
           (300 \<le> t2 - t1 \<longrightarrow>
              (\<exists>s2. single_touch p2 moves2 q2 t2 s1 = Inr s2 \<and>
                 effects s2 = effects s1 \<and> nextId s2 = nextId s1 \<and>
                 map_option mesh_id (hudCube s2) = map_option mesh_id (hudCube s1)))"
proof -
  from single_touch_tap [OF assms(1,2,3,4,6,7), of t1]
  obtain s1 where s1: "single_touch p1 moves1 q1 t1 s = Inr s1" "lastTap s1 = t1"
    "isReady s1" "camera s1 \<noteq> None" "hudCube s1 \<noteq> None"
    "300 \<le> t1 - lastTap s \<longrightarrow>
       effects s1 = effects s \<and> nextId s1 = nextId s \<and>
       map_option mesh_id (hudCube s1) = Some (mesh_id m)"
    by blast
  from s1(4,5) obtain c1 m1 where c1: "camera s1 = Some c1" and m1: "hudCube s1 = Some m1"
    by auto
  from single_touch_tap [OF s1(3) c1 m1 assms(5,8,9), of t2]
  obtain s2 where s2: "single_touch p2 moves2 q2 t2 s1 = Inr s2"
    "t2 - lastTap s1 < 300 \<longrightarrow>
       (\<exists>placed. placeCube None (run (map TouchMove moves2) (touchstart [p2] s1)) = Inr placed \<and>
          hudCube s2 = hudCube placed \<and> effects s2 = effects placed \<and>
          nextId s2 = nextId s1 + 5 \<and>
          map_option mesh_id (hudCube s2) = Some (nextId s1 + 4) \<and>
          last (effects s2) = CameraAdd (nextId s1 + 4))"
    "300 \<le> t2 - lastTap s1 \<longrightarrow>
       effects s2 = effects s1 \<and> nextId s2 = nextId s1 \<and>
       map_option mesh_id (hudCube s2) = Some (mesh_id m1)"
    by blast
  have A: "t2 - t1 < 300 \<longrightarrow>
      (\<exists>placed s2.
         placeCube None (run (map TouchMove moves2) (touchstart [p2] s1)) = Inr placed \<and>
         single_touch p2 moves2 q2 t2 s1 = Inr s2 \<and>
         hudCube s2 = hudCube placed \<and> effects s2 = effects placed \<and>
         map_option mesh_id (hudCube s2) = Some (nextId s1 + 4) \<and>
         last (effects s2) = CameraAdd (nextId s1 + 4))"
    using s2(1,2) s1(2) by blast
  have B: "300 \<le> t2 - t1 \<longrightarrow>
      (\<exists>s2. single_touch p2 moves2 q2 t2 s1 = Inr s2 \<and>
         effects s2 = effects s1 \<and> nextId s2 = nextId s1 \<and>
         map_option mesh_id (hudCube s2) = map_option mesh_id (hudCube s1))"
    using s2(1,3) s1(2) m1 by auto
  from s1(1) s1(6) A B show ?thesis by blast
qed

theorem double_tap_places_overlay_witness:
  "isReady with_overlay \<and> hudCube with_overlay \<noteq> None \<and> lastTap with_overlay = 0 \<and>
   \<bar>clientX (touch_at 103 102) - clientX (touch_at 100 100)\<bar> < 10 \<and>
   \<bar>clientY (touch_at 103 102) - clientY (touch_at 100 100)\<bar> < 10 \<and>
   (\<exists>s1. single_touch (touch_at 100 100) [[touch_at 102 101]] (touch_at 103 102) 1000000
            with_overlay = Inr s1 \<and>
      effects s1 = effects with_overlay \<and>
      map_option mesh_id (hudCube s1) = Some 4 \<and>
      (\<exists>s2. single_touch (touch_at 100 100) [] (touch_at 100 100) 1000200 s1 = Inr s2 \<and>
         map_option mesh_id (hudCube s2) = Some 9 \<and> last (effects s2) = CameraAdd 9) \<and>
      (\<exists>s2. single_touch (touch_at 100 100) [] (touch_at 100 100) 1000500 s1 = Inr s2 \<and>
         effects s2 = effects s1 \<and> map_option mesh_id (hudCube s2) = Some 4))"
proof -
  have l1: "\<forall>mv \<in> set [[touch_at 102 101]]. length mv = 1"
    and l2: "\<forall>mv \<in> set ([] :: touch list list). length mv = 1"
    by simp_all
  have d: "\<bar>clientX (touch_at 103 102) - clientX (touch_at 100 100)\<bar> < 10"
    "\<bar>clientY (touch_at 103 102) - clientY (touch_at 100 100)\<bar> < 10"
    "\<bar>clientX (touch_at 100 100) - clientX (touch_at 100 100)\<bar> < 10"
    "\<bar>clientY (touch_at 100 100) - clientY (touch_at 100 100)\<bar> < 10"
    by (simp_all add: touch_at_def)
  note T = double_tap_places_overlay
    [OF with_overlay_fields(1) with_overlay_fields(3) with_overlay_fields(4) l1 l2 d,
     of 1000000]
  show ?thesis
    using T [of 1000200] T [of 1000500] d(1,2)
    by (auto simp add: with_overlay_fields) metis
qed

end
